theory Spec2Isabelle
  imports Main
begin

section \<open>Data model (src/types.ts)\<close>

text \<open>
  The records follow the interfaces of \<^verbatim>\<open>src/types.ts\<close>. JavaScript numbers that the
  program only stores (\<^verbatim>\<open>confidenceScore\<close>, \<^verbatim>\<open>timestamp\<close>) are integers here; the
  program does no arithmetic on them. Optional fields are options.
\<close>

record technicalDetails =
  lightingConsistency :: string
  textureQuality :: string
  anatomicalAccuracy :: "string option"
  metadataAnalysis :: "string option"
  temporalConsistency :: "string option"

record AnalysisResult =
  isAiGenerated :: bool
  confidenceScore :: int
  verdict :: string
  reasoning :: "string list"
  artifactsFound :: "string list"
  technicalDetails :: technicalDetails

datatype AnalysisStatus = IDLE | ANALYZING | COMPLETED | ERROR

text \<open>
  The browser's \<^verbatim>\<open>File\<close> handle: the program reads its \<^verbatim>\<open>name\<close> and \<^verbatim>\<open>size\<close>; its
  bytes are only reached through a \<^verbatim>\<open>FileReader\<close>, which is part of the environment.
\<close>

record File =
  name :: string
  size_f :: nat
  type_f :: string

text \<open>
  \<^verbatim>\<open>UploadedFile\<close>. The field \<^verbatim>\<open>base64\<close> is declared a string, but it is the second
  element of a destructured \<^verbatim>\<open>split(',')\<close>, which is \<^verbatim>\<open>undefined\<close> when the string
  read has no comma: \<open>None\<close> is that \<^verbatim>\<open>undefined\<close>.
\<close>

record UploadedFile =
  file_f :: File
  previewUrl :: string
  base64 :: "string option"
  mimeType :: string

record HistoryItem =
  item_id :: string
  timestamp :: int
  fileName :: string
  fileType :: string
  item_previewUrl :: string
  item_result :: AnalysisResult

section \<open>Strings\<close>

text \<open>\<^verbatim>\<open>String.prototype.startsWith\<close> and \<^verbatim>\<open>String.prototype.includes\<close> (case sensitive).\<close>

fun startsWith :: "string \<Rightarrow> string \<Rightarrow> bool" where
  "startsWith s [] = True"
| "startsWith [] (p # ps) = False"
| "startsWith (c # cs) (p # ps) = (c = p \<and> startsWith cs ps)"

fun includes_s :: "string \<Rightarrow> string \<Rightarrow> bool" where
  "includes_s [] p = startsWith [] p"
| "includes_s (c # cs) p = (startsWith (c # cs) p \<or> includes_s cs p)"

section \<open>Error classifier (getFriendlyErrorMessage, src/App.tsx 78--106)\<close>

text \<open>
  The raw error is of type \<^verbatim>\<open>any\<close>; the function reads only \<^verbatim>\<open>error?.message\<close>. A raw
  error is modelled by that message: \<open>None\<close> stands for a \<^verbatim>\<open>null\<close> or \<^verbatim>\<open>undefined\<close>
  error and for an error without a message. \<^verbatim>\<open>(error?.message || '')\<close> turns both the
  absent and the empty message into the empty string.
\<close>

record raw_error =
  message :: "string option"

definition msg_of :: "raw_error \<Rightarrow> string" where
  "msg_of e = (case message e of None \<Rightarrow> [] | Some m \<Rightarrow> m)"

definition MSG_AUTH :: string where
  "MSG_AUTH = ''Authentication Failed. Please check your API Key configuration.''"

definition MSG_REJECTED :: string where
  "MSG_REJECTED =
     ''Analysis Rejected. The media format might be unsupported or the file is corrupted.''"

definition MSG_OVERLOAD :: string where
  "MSG_OVERLOAD =
     ''System Overload. The AI forensic model is currently busy. Please try again in a moment.''"

definition MSG_NETWORK :: string where
  "MSG_NETWORK = ''Network Error. Please check your internet connection.''"

definition MSG_NO_REPORT :: string where
  "MSG_NO_REPORT = ''Analysis Error. The AI model failed to generate a structured report.''"

definition MSG_UNEXPECTED :: string where
  "MSG_UNEXPECTED = ''An unexpected error occurred during analysis. Please try again.''"

definition getFriendlyErrorMessage :: "raw_error \<Rightarrow> string" where
  "getFriendlyErrorMessage e =
     (let msg = msg_of e in
      if includes_s msg ''MISSING_API_KEY'' \<or> includes_s msg ''API key'' \<or> includes_s msg ''403''
        then MSG_AUTH
      else if includes_s msg ''400'' \<or> includes_s msg ''INVALID_ARGUMENT''
        then MSG_REJECTED
      else if includes_s msg ''503'' \<or> includes_s msg ''500'' \<or> includes_s msg ''Overloaded''
        then MSG_OVERLOAD
      else if includes_s msg ''fetch'' \<or> includes_s msg ''network''
                \<or> includes_s msg ''Failed to fetch''
        then MSG_NETWORK
      else if includes_s msg ''File too large''
        then msg
      else if includes_s msg ''NO_RESPONSE_TEXT''
        then MSG_NO_REPORT
      else MSG_UNEXPECTED)"

subsection \<open>The classification as the specification words it\<close>

text \<open>
  The specification speaks of a category per error. The code has no such type; the
  following definitions state the specification's reading (an ordered list of categories,
  each with its indicators, the first category with a matching indicator wins), to be
  compared with \<open>getFriendlyErrorMessage\<close>.
\<close>

datatype ErrorCategory =
  Authentication | InvalidMedia | ServiceOverloaded | NetworkUnavailable
  | FileTooLarge | MalformedResponse | Unknown

fun indicators :: "ErrorCategory \<Rightarrow> string list" where
  "indicators Authentication = [''MISSING_API_KEY'', ''API key'', ''403'']"
| "indicators InvalidMedia = [''400'', ''INVALID_ARGUMENT'']"
| "indicators ServiceOverloaded = [''503'', ''500'', ''Overloaded'']"
| "indicators NetworkUnavailable = [''fetch'', ''network'', ''Failed to fetch'']"
| "indicators FileTooLarge = [''File too large'']"
| "indicators MalformedResponse = [''NO_RESPONSE_TEXT'']"
| "indicators Unknown = []"

definition category_order :: "ErrorCategory list" where
  "category_order =
     [Authentication, InvalidMedia, ServiceOverloaded, NetworkUnavailable,
      FileTooLarge, MalformedResponse]"

definition matches :: "string \<Rightarrow> ErrorCategory \<Rightarrow> bool" where
  "matches msg c = list_ex (includes_s msg) (indicators c)"

definition classify_spec :: "string \<Rightarrow> ErrorCategory" where
  "classify_spec msg =
     (case find (matches msg) category_order of None \<Rightarrow> Unknown | Some c \<Rightarrow> c)"

fun message_of :: "ErrorCategory \<Rightarrow> string \<Rightarrow> string" where
  "message_of Authentication msg = MSG_AUTH"
| "message_of InvalidMedia msg = MSG_REJECTED"
| "message_of ServiceOverloaded msg = MSG_OVERLOAD"
| "message_of NetworkUnavailable msg = MSG_NETWORK"
| "message_of FileTooLarge msg = msg"
| "message_of MalformedResponse msg = MSG_NO_REPORT"
| "message_of Unknown msg = MSG_UNEXPECTED"

section \<open>Persistent storage (window.localStorage)\<close>

text \<open>
  The storage is part of the environment. \<open>items\<close> is its content; \<open>accepts\<close> says
  which writes it takes at present (a write it does not take raises
  \<^verbatim>\<open>QuotaExceededError\<close>); \<open>attempts\<close> records every call of \<^verbatim>\<open>setItem\<close>, accepted
  or not, oldest first. The theorems hold for every \<open>accepts\<close>.
\<close>

record localStorage =
  items :: "string \<rightharpoonup> string"
  accepts :: "string \<Rightarrow> string \<Rightarrow> bool"
  attempts :: "(string \<times> string) list"

datatype storage_error = QuotaExceededError

definition getItem :: "string \<Rightarrow> localStorage \<Rightarrow> string option" where
  "getItem k ls = items ls k"

definition setItem :: "string \<Rightarrow> string \<Rightarrow> localStorage \<Rightarrow> storage_error option \<times> localStorage" where
  "setItem k v ls =
     (if accepts ls k v
      then (None, ls\<lparr>items := (items ls)(k \<mapsto> v), attempts := attempts ls @ [(k, v)]\<rparr>)
      else (Some QuotaExceededError, ls\<lparr>attempts := attempts ls @ [(k, v)]\<rparr>))"

definition KEY :: string where
  "KEY = ''diso_history''"

section \<open>The component's state and its environment (src/App.tsx 10--15)\<close>

datatype Tab = analyze | history_tab

record App =
  activeTab :: Tab
  status :: AnalysisStatus
  currentFile :: "UploadedFile option"
  result :: "AnalysisResult option"
  error :: "string option"
  history :: "HistoryItem list"

text \<open>
  The world is the component's state, the storage, and two logs of the calls the program
  makes to its asynchronous collaborators: \<open>reads\<close> lists the files handed to
  \<^verbatim>\<open>FileReader.readAsDataURL\<close>, \<open>calls\<close> the arguments of every \<^verbatim>\<open>analyzeMedia\<close> call,
  both oldest first.
\<close>

record world =
  app :: App
  storage :: localStorage
  reads :: "File list"
  calls :: "(string option \<times> string) list"

section \<open>Numbers and strings of the platform\<close>

text \<open>\<^verbatim>\<open>Number.prototype.toString\<close> on an integer: decimal digits, a minus sign if negative.\<close>

definition digit :: "nat \<Rightarrow> char" where
  "digit d = ''0123456789'' ! d"

fun nat_toString :: "nat \<Rightarrow> string" where
  "nat_toString n = (if n < 10 then [digit n] else nat_toString (n div 10) @ [digit (n mod 10)])"

declare nat_toString.simps [simp del]

definition toString :: "int \<Rightarrow> string" where
  "toString i = (if i < 0 then CHR ''-'' # nat_toString (nat (- i)) else nat_toString (nat i))"

text \<open>
  \<^verbatim>\<open>String.prototype.split\<close> with a one-character separator: the pieces between the
  separators, in order; a string without the separator is its own single piece.
\<close>

fun split_str :: "char \<Rightarrow> string \<Rightarrow> string list" where
  "split_str c [] = [[]]"
| "split_str c (x # xs) =
     (if x = c then [] # split_str c xs
      else (case split_str c xs of [] \<Rightarrow> [[x]] | p # ps \<Rightarrow> (x # p) # ps))"

text \<open>Indexing a JavaScript array: \<^verbatim>\<open>undefined\<close> (here \<open>None\<close>) out of range.\<close>

definition at :: "'a list \<Rightarrow> nat \<Rightarrow> 'a option" where
  "at xs i = (if i < length xs then Some (xs ! i) else None)"

section \<open>History store (src/App.tsx 17--62)\<close>

text \<open>
  \<^verbatim>\<open>JSON.stringify\<close> and \<^verbatim>\<open>JSON.parse\<close> belong to the platform; the operations take them
  as parameters (\<open>parse\<close> returns \<open>None\<close> where \<^verbatim>\<open>JSON.parse\<close> throws).

  \<open>addToHistory\<close> is a closure: the \<^verbatim>\<open>history\<close> it reads is the list of the render in
  which \<^verbatim>\<open>processFile\<close> was called, not the list at the time it runs. That captured list
  is the parameter \<open>hist\<close>. \<open>now\<close> holds the two readings of \<^verbatim>\<open>Date.now()\<close>, the first
  for the id, the second for the timestamp.
\<close>

definition loadHistory :: "(string \<Rightarrow> HistoryItem list option) \<Rightarrow> world \<Rightarrow> world" where
  "loadHistory parse w =
     (case getItem KEY (storage w) of
        None \<Rightarrow> w
      | Some saved \<Rightarrow>
          if saved = [] then w
          else (case parse saved of
                  None \<Rightarrow> w
                | Some h \<Rightarrow> w\<lparr>app := (app w)\<lparr>history := h\<rparr>\<rparr>))"

definition newItem_of :: "int \<times> int \<Rightarrow> UploadedFile \<Rightarrow> AnalysisResult \<Rightarrow> HistoryItem" where
  "newItem_of now u analysis =
     \<lparr>item_id = toString (fst now), timestamp = snd now, fileName = name (file_f u),
      fileType = mimeType u, item_previewUrl = previewUrl u, item_result = analysis\<rparr>"

definition addToHistory ::
  "(HistoryItem list \<Rightarrow> string) \<Rightarrow> HistoryItem list \<Rightarrow> int \<times> int \<Rightarrow> UploadedFile
     \<Rightarrow> AnalysisResult \<Rightarrow> world \<Rightarrow> world" where
  "addToHistory stringify hist now u analysis w =
     (let newItem = newItem_of now u analysis;
          updatedHistory = newItem # hist in
      case setItem KEY (stringify updatedHistory) (storage w) of
        (None, ls1) \<Rightarrow> w\<lparr>app := (app w)\<lparr>history := updatedHistory\<rparr>, storage := ls1\<rparr>
      | (Some e, ls1) \<Rightarrow>
          (let itemWithoutImage = newItem\<lparr>item_previewUrl := []\<rparr>;
               updatedHistory = itemWithoutImage # hist in
           case setItem KEY (stringify updatedHistory) ls1 of
             (None, ls2) \<Rightarrow> w\<lparr>app := (app w)\<lparr>history := updatedHistory\<rparr>, storage := ls2\<rparr>
           | (Some e2, ls2) \<Rightarrow> w\<lparr>storage := ls2\<rparr>))"

text \<open>
  \<open>deleteHistoryItem\<close> calls \<^verbatim>\<open>setItem\<close> outside any \<^verbatim>\<open>try\<close>, after \<^verbatim>\<open>setHistory\<close>: an
  exception of the storage leaves the handler, which is the first component of the result.
\<close>

definition deleteHistoryItem ::
  "(HistoryItem list \<Rightarrow> string) \<Rightarrow> string \<Rightarrow> world \<Rightarrow> storage_error option \<times> world" where
  "deleteHistoryItem stringify i w =
     (let updatedHistory = filter (\<lambda>item. item_id item \<noteq> i) (history (app w));
          w1 = w\<lparr>app := (app w)\<lparr>history := updatedHistory\<rparr>\<rparr> in
      case setItem KEY (stringify updatedHistory) (storage w1) of
        (r, ls) \<Rightarrow> (r, w1\<lparr>storage := ls\<rparr>))"

definition loadHistoryItem :: "HistoryItem \<Rightarrow> world \<Rightarrow> world" where
  "loadHistoryItem item w =
     w\<lparr>app := (app w)
        \<lparr>currentFile :=
           Some \<lparr>file_f = \<lparr>name = fileName item, size_f = 0, type_f = fileType item\<rparr>,
                 previewUrl = item_previewUrl item, base64 = Some [],
                 mimeType = fileType item\<rparr>,
         result := Some (item_result item),
         status := COMPLETED,
         activeTab := analyze\<rparr>\<rparr>"

section \<open>Analysis session (processFile, src/App.tsx 116--174, and the Retry button, 303--308)\<close>

definition MAX_SIZE :: nat where
  "MAX_SIZE = 20 * 1024 * 1024"

definition FILE_TOO_LARGE :: raw_error where
  "FILE_TOO_LARGE = \<lparr>message = Some ''File too large. Please upload media under 20MB.''\<rparr>"

definition MSG_READ_FAILED :: string where
  "MSG_READ_FAILED = ''Failed to read file. Please try another file.''"

text \<open>
  The \<^verbatim>\<open>TypeError\<close> of \<^verbatim>\<open>meta.split(':')[1].split(';')\<close> when \<^verbatim>\<open>meta\<close> has no colon
  (the wording is V8's).
\<close>

definition TYPE_ERROR :: raw_error where
  "TYPE_ERROR =
     \<lparr>message = Some (''Cannot read properties of undefined (reading '' @ [CHR 0x27]
                       @ ''split'' @ [CHR 0x27] @ '')'')\<rparr>"

text \<open>
  The synchronous part of \<^verbatim>\<open>processFile\<close>: the size check, whose exception the outer
  \<^verbatim>\<open>catch\<close> turns into the error state, then the three state updates and the start of
  the read.
\<close>

definition processFile :: "File \<Rightarrow> world \<Rightarrow> world" where
  "processFile f w =
     (if size_f f > MAX_SIZE
      then w\<lparr>app := (app w)\<lparr>error := Some (getFriendlyErrorMessage FILE_TOO_LARGE),
                             status := ERROR\<rparr>\<rparr>
      else w\<lparr>app := (app w)\<lparr>status := ANALYZING, error := None, result := None\<rparr>,
             reads := reads w @ [f]\<rparr>)"

text \<open>
  Lines 129--140: what \<^verbatim>\<open>reader.onload\<close> makes of the string read, \<^verbatim>\<open>base64Raw\<close>.
\<close>

definition encode :: "File \<Rightarrow> string \<Rightarrow> raw_error + UploadedFile" where
  "encode f base64Raw =
     (let parts = split_str CHR '','' base64Raw;
          meta = hd parts;
          data = at parts 1 in
      case at (split_str CHR '':'' meta) 1 of
        None \<Rightarrow> Inl TYPE_ERROR
      | Some m \<Rightarrow>
          Inr \<lparr>file_f = f, previewUrl = base64Raw, base64 = data,
               mimeType = hd (split_str CHR '';'' m)\<rparr>)"

text \<open>\<^verbatim>\<open>reader.onload\<close> up to the call of \<^verbatim>\<open>analyzeMedia\<close>, where it suspends.\<close>

definition reader_onload :: "File \<Rightarrow> string \<Rightarrow> world \<Rightarrow> world" where
  "reader_onload f base64Raw w =
     (case encode f base64Raw of
        Inl apiError \<Rightarrow>
          w\<lparr>app := (app w)\<lparr>error := Some (getFriendlyErrorMessage apiError), status := ERROR\<rparr>\<rparr>
      | Inr uploadData \<Rightarrow>
          w\<lparr>app := (app w)\<lparr>currentFile := Some uploadData\<rparr>,
            calls := calls w @ [(base64 uploadData, mimeType uploadData)]\<rparr>)"

text \<open>The rest of \<^verbatim>\<open>reader.onload\<close>, when \<^verbatim>\<open>analyzeMedia\<close> resolves with \<open>analysis\<close>.\<close>

definition analyze_resolved ::
  "(HistoryItem list \<Rightarrow> string) \<Rightarrow> HistoryItem list \<Rightarrow> int \<times> int \<Rightarrow> UploadedFile
     \<Rightarrow> AnalysisResult \<Rightarrow> world \<Rightarrow> world" where
  "analyze_resolved stringify hist now uploadData analysis w =
     addToHistory stringify hist now uploadData analysis
       (w\<lparr>app := (app w)\<lparr>result := Some analysis, status := COMPLETED\<rparr>\<rparr>)"

text \<open>The \<^verbatim>\<open>catch\<close> of \<^verbatim>\<open>reader.onload\<close>, when \<^verbatim>\<open>analyzeMedia\<close> rejects with \<open>apiError\<close>.\<close>

definition analyze_rejected :: "raw_error \<Rightarrow> world \<Rightarrow> world" where
  "analyze_rejected apiError w =
     w\<lparr>app := (app w)\<lparr>error := Some (getFriendlyErrorMessage apiError), status := ERROR\<rparr>\<rparr>"

definition reader_onerror :: "world \<Rightarrow> world" where
  "reader_onerror w = w\<lparr>app := (app w)\<lparr>error := Some MSG_READ_FAILED, status := ERROR\<rparr>\<rparr>"

definition handleReset :: "world \<Rightarrow> world" where
  "handleReset w =
     w\<lparr>app := (app w)\<lparr>status := IDLE, currentFile := None, result := None, error := None\<rparr>\<rparr>"

text \<open>The Retry button: \<^verbatim>\<open>currentFile && processFile(currentFile.file)\<close>.\<close>

definition retry :: "world \<Rightarrow> world" where
  "retry w = (case currentFile (app w) of None \<Rightarrow> w | Some cf \<Rightarrow> processFile (file_f cf) w)"

text \<open>Newest first: no record is followed by one with a later timestamp.\<close>

definition newest_first :: "HistoryItem list \<Rightarrow> bool" where
  "newest_first h = sorted_wrt (\<lambda>a b. timestamp b \<le> timestamp a) h"

section \<open>Concrete inputs\<close>

text \<open>
  The state in which the component mounts (the arguments of its \<^verbatim>\<open>useState\<close> calls), and
  inputs for evaluating the operations: a 2 MiB PNG, the data URL a reader delivers for
  it, the upload made of both, and a verdict.
\<close>

definition initial_app :: App where
  "initial_app =
     \<lparr>activeTab = analyze, status = IDLE, currentFile = None, result = None, error = None,
      history = []\<rparr>"

definition example_file :: File where
  "example_file = \<lparr>name = ''cat.png'', size_f = 2097152, type_f = ''image/png''\<rparr>"

definition example_url :: string where
  "example_url = ''data:image/png;base64,QUJD''"

definition example_upload :: UploadedFile where
  "example_upload =
     \<lparr>file_f = example_file, previewUrl = example_url, base64 = Some ''QUJD'',
      mimeType = ''image/png''\<rparr>"

definition example_result :: AnalysisResult where
  "example_result =
     \<lparr>isAiGenerated = True, confidenceScore = 87, verdict = ''Likely AI-generated'',
      reasoning = [], artifactsFound = [],
      technicalDetails =
        \<lparr>lightingConsistency = ''flat'', textureQuality = ''smooth'',
         anatomicalAccuracy = None, metadataAnalysis = None, temporalConsistency = None\<rparr>\<rparr>"

text \<open>
  A serialisation that writes each record's id and preview, and a storage that takes a
  value of at most \<open>cap\<close> characters, both for evaluating the history store.
\<close>

definition example_stringify :: "HistoryItem list \<Rightarrow> string" where
  "example_stringify h = concat (map (\<lambda>x. item_id x @ '':'' @ item_previewUrl x @ '';'') h)"

definition example_storage :: "nat \<Rightarrow> localStorage" where
  "example_storage cap = \<lparr>items = Map.empty, accepts = (\<lambda>k v. length v \<le> cap), attempts = []\<rparr>"

definition initial_world :: "nat \<Rightarrow> world" where
  "initial_world cap = \<lparr>app = initial_app, storage = example_storage cap, reads = [], calls = []\<rparr>"

definition example_item :: "string \<Rightarrow> int \<Rightarrow> HistoryItem" where
  "example_item i t =
     \<lparr>item_id = i, timestamp = t, fileName = ''cat.png'', fileType = ''image/png'',
      item_previewUrl = [], item_result = example_result\<rparr>"

text \<open>
  A world whose history holds two records, persisted when the storage had room, and whose
  storage now takes a value of at most \<open>cap\<close> characters.
\<close>

definition stored_world :: "nat \<Rightarrow> world" where
  "stored_world cap =
     \<lparr>app = initial_app\<lparr>history := [example_item ''2'' 2, example_item ''1'' 1]\<rparr>,
      storage =
        \<lparr>items = [KEY \<mapsto> ''2:;1:;''], accepts = (\<lambda>k v. length v \<le> cap), attempts = []\<rparr>,
      reads = [], calls = []\<rparr>"

text \<open>
  A session in which the first submission of the PNG is in flight, and the same session
  after the inference call has failed for lack of connectivity.
\<close>

definition submitting_world :: world where
  "submitting_world =
     reader_onload example_file example_url (processFile example_file (initial_world 99))"

definition failed_world :: world where
  "failed_world = analyze_rejected \<lparr>message = Some ''Failed to fetch''\<rparr> submitting_world"

text \<open>A second file, for a second submission, and a file of exactly 20 MiB.\<close>

definition other_file :: File where
  "other_file = \<lparr>name = ''dog.jpg'', size_f = 1024, type_f = ''image/jpeg''\<rparr>"

definition other_url :: string where
  "other_url = ''data:image/jpeg;base64,WFla''"

definition boundary_file :: File where
  "boundary_file = \<lparr>name = ''clip.mp4'', size_f = 20971520, type_f = ''video/mp4''\<rparr>"

section \<open>Properties of the error classifier\<close>

lemma classify_refines:
  "getFriendlyErrorMessage e = message_of (classify_spec (msg_of e)) (msg_of e)"
  by (simp add: getFriendlyErrorMessage_def classify_spec_def category_order_def
      matches_def Let_def)

lemma classify_spec_first:
  assumes "i < length category_order" "matches msg (category_order ! i)"
    "\<forall>j<i. \<not> matches msg (category_order ! j)"
  shows "classify_spec msg = category_order ! i"
proof -
  have "find (matches msg) category_order = Some (category_order ! i)"
    using assms by (auto simp: find_Some_iff)
  then show ?thesis by (simp add: classify_spec_def)
qed

text \<open>
  Claim C5. Every raw error whose message contains an authorization-failure indicator
  (\<^verbatim>\<open>MISSING_API_KEY\<close>, \<^verbatim>\<open>API key\<close>, \<^verbatim>\<open>403\<close>) gets the Authentication category
  and its fixed message; every raw error that matches no indicator of any category, and
  every raw error without a message, gets the Unknown category and the generic fallback
  message. The function is total: its result is always one of the six fixed messages or,
  for the oversize-file category, the raw message itself.
\<close>

theorem classify_authentication_unknown:
  "(matches (msg_of e) Authentication \<longrightarrow>
      classify_spec (msg_of e) = Authentication \<and> getFriendlyErrorMessage e = MSG_AUTH)
   \<and> ((\<forall>c \<in> set category_order. \<not> matches (msg_of e) c) \<longrightarrow>
      classify_spec (msg_of e) = Unknown \<and> getFriendlyErrorMessage e = MSG_UNEXPECTED)
   \<and> (message e = None \<longrightarrow> getFriendlyErrorMessage e = MSG_UNEXPECTED)
   \<and> getFriendlyErrorMessage e \<in>
        {MSG_AUTH, MSG_REJECTED, MSG_OVERLOAD, MSG_NETWORK, msg_of e, MSG_NO_REPORT,
         MSG_UNEXPECTED}"
  by (simp add: getFriendlyErrorMessage_def classify_spec_def category_order_def
      matches_def Let_def msg_of_def)

text \<open>The theorem of C5 at three concrete raw errors.\<close>

theorem classify_authentication_unknown_witness:
  "getFriendlyErrorMessage \<lparr>message = Some ''HTTP 403 Forbidden''\<rparr> = MSG_AUTH
   \<and> getFriendlyErrorMessage \<lparr>message = Some ''quantum flux''\<rparr> = MSG_UNEXPECTED
   \<and> getFriendlyErrorMessage \<lparr>message = None\<rparr> = MSG_UNEXPECTED"
proof -
  have a: "matches (msg_of \<lparr>message = Some ''HTTP 403 Forbidden''\<rparr>) Authentication"
    by (simp add: matches_def msg_of_def)
  have b: "\<forall>c \<in> set category_order. \<not> matches (msg_of \<lparr>message = Some ''quantum flux''\<rparr>) c"
    by (simp add: matches_def msg_of_def category_order_def)
  show ?thesis
    using classify_authentication_unknown [of "\<lparr>message = Some ''HTTP 403 Forbidden''\<rparr>"]
      classify_authentication_unknown [of "\<lparr>message = Some ''quantum flux''\<rparr>"]
      classify_authentication_unknown [of "\<lparr>message = None\<rparr>"] a b
    by simp
qed

text \<open>
  Claim C9. The pattern checks are applied in the fixed order Authentication,
  InvalidMedia, ServiceOverloaded, NetworkUnavailable, FileTooLarge, MalformedResponse,
  then Unknown: the message returned is that of the earliest category of this order with
  a matching indicator, and the fallback when none matches. In particular a message that
  contains both \<^verbatim>\<open>403\<close> and \<^verbatim>\<open>503\<close> is classified as Authentication.
\<close>

theorem classification_order:
  "getFriendlyErrorMessage e = message_of (classify_spec (msg_of e)) (msg_of e)
   \<and> (\<forall>i < length category_order.
         matches (msg_of e) (category_order ! i)
         \<and> (\<forall>j<i. \<not> matches (msg_of e) (category_order ! j))
         \<longrightarrow> classify_spec (msg_of e) = category_order ! i
             \<and> getFriendlyErrorMessage e = message_of (category_order ! i) (msg_of e))
   \<and> ((\<forall>c \<in> set category_order. \<not> matches (msg_of e) c) \<longrightarrow>
         getFriendlyErrorMessage e = message_of Unknown (msg_of e))
   \<and> (includes_s (msg_of e) ''403'' \<and> includes_s (msg_of e) ''503''
         \<longrightarrow> getFriendlyErrorMessage e = MSG_AUTH)"
proof -
  have r: "getFriendlyErrorMessage e = message_of (classify_spec (msg_of e)) (msg_of e)"
    by (rule classify_refines)
  have f: "\<forall>i < length category_order.
         matches (msg_of e) (category_order ! i)
         \<and> (\<forall>j<i. \<not> matches (msg_of e) (category_order ! j))
         \<longrightarrow> classify_spec (msg_of e) = category_order ! i"
    using classify_spec_first by blast
  have u: "(\<forall>c \<in> set category_order. \<not> matches (msg_of e) c) \<longrightarrow>
         getFriendlyErrorMessage e = message_of Unknown (msg_of e)"
    by (simp add: getFriendlyErrorMessage_def category_order_def matches_def Let_def)
  have x: "includes_s (msg_of e) ''403'' \<and> includes_s (msg_of e) ''503''
         \<longrightarrow> getFriendlyErrorMessage e = MSG_AUTH"
    by (simp add: getFriendlyErrorMessage_def Let_def)
  from r f u x show ?thesis by simp
qed

text \<open>The theorem of C9 at two messages with indicators of several categories.\<close>

theorem classification_order_witness:
  "getFriendlyErrorMessage \<lparr>message = Some ''403 then 503''\<rparr> = MSG_AUTH
   \<and> getFriendlyErrorMessage \<lparr>message = Some ''500: fetch failed''\<rparr> = MSG_OVERLOAD"
proof -
  let ?e = "\<lparr>message = Some ''500: fetch failed''\<rparr>"
  have m: "matches (msg_of ?e) (category_order ! 2)"
    by (simp add: matches_def msg_of_def category_order_def)
  have n: "\<forall>j<2. \<not> matches (msg_of ?e) (category_order ! j)"
    by (simp add: matches_def msg_of_def category_order_def less_Suc_eq numeral_2_eq_2)
  have l: "2 < length category_order" by (simp add: category_order_def)
  have c: "category_order ! 2 = ServiceOverloaded" by (simp add: category_order_def)
  have i: "includes_s (msg_of \<lparr>message = Some ''403 then 503''\<rparr>) ''403''
      \<and> includes_s (msg_of \<lparr>message = Some ''403 then 503''\<rparr>) ''503''"
    by (simp add: msg_of_def)
  have A: "getFriendlyErrorMessage \<lparr>message = Some ''403 then 503''\<rparr> = MSG_AUTH"
    using classification_order [of "\<lparr>message = Some ''403 then 503''\<rparr>"] i by blast
  have B: "getFriendlyErrorMessage ?e = message_of (category_order ! 2) (msg_of ?e)"
    using classification_order [of ?e] m n l by blast
  show ?thesis using A B c by simp
qed

section \<open>Properties of the history store\<close>

lemma setItem_accepted:
  "accepts ls k v \<Longrightarrow>
     setItem k v ls = (None, ls\<lparr>items := (items ls)(k \<mapsto> v), attempts := attempts ls @ [(k, v)]\<rparr>)"
  by (simp add: setItem_def)

lemma setItem_rejected:
  "\<not> accepts ls k v \<Longrightarrow>
     setItem k v ls = (Some QuotaExceededError, ls\<lparr>attempts := attempts ls @ [(k, v)]\<rparr>)"
  by (simp add: setItem_def)

lemma addToHistory_first:
  "accepts (storage w) KEY (stringify (newItem_of now u a # hist)) \<Longrightarrow>
   addToHistory stringify hist now u a w =
     w\<lparr>app := (app w)\<lparr>history := newItem_of now u a # hist\<rparr>,
       storage := (storage w)
         \<lparr>items := (items (storage w))(KEY \<mapsto> stringify (newItem_of now u a # hist)),
          attempts := attempts (storage w) @ [(KEY, stringify (newItem_of now u a # hist))]\<rparr>\<rparr>"
  by (simp add: addToHistory_def Let_def setItem_accepted)

lemma addToHistory_second:
  "\<not> accepts (storage w) KEY (stringify (newItem_of now u a # hist)) \<Longrightarrow>
   accepts (storage w) KEY (stringify ((newItem_of now u a)\<lparr>item_previewUrl := []\<rparr> # hist)) \<Longrightarrow>
   addToHistory stringify hist now u a w =
     w\<lparr>app := (app w)\<lparr>history := (newItem_of now u a)\<lparr>item_previewUrl := []\<rparr> # hist\<rparr>,
       storage := (storage w)
         \<lparr>items := (items (storage w))
             (KEY \<mapsto> stringify ((newItem_of now u a)\<lparr>item_previewUrl := []\<rparr> # hist)),
          attempts := attempts (storage w) @
             [(KEY, stringify (newItem_of now u a # hist)),
              (KEY, stringify ((newItem_of now u a)\<lparr>item_previewUrl := []\<rparr> # hist))]\<rparr>\<rparr>"
  by (simp add: addToHistory_def Let_def setItem_accepted setItem_rejected)

lemma addToHistory_none:
  "\<not> accepts (storage w) KEY (stringify (newItem_of now u a # hist)) \<Longrightarrow>
   \<not> accepts (storage w) KEY (stringify ((newItem_of now u a)\<lparr>item_previewUrl := []\<rparr> # hist)) \<Longrightarrow>
   addToHistory stringify hist now u a w =
     w\<lparr>storage := (storage w)
         \<lparr>attempts := attempts (storage w) @
             [(KEY, stringify (newItem_of now u a # hist)),
              (KEY, stringify ((newItem_of now u a)\<lparr>item_previewUrl := []\<rparr> # hist))]\<rparr>\<rparr>"
  by (simp add: addToHistory_def Let_def setItem_accepted setItem_rejected)

lemma addToHistory_session:
  "status (app (addToHistory stringify hist now u a w)) = status (app w)
   \<and> result (app (addToHistory stringify hist now u a w)) = result (app w)
   \<and> error (app (addToHistory stringify hist now u a w)) = error (app w)
   \<and> currentFile (app (addToHistory stringify hist now u a w)) = currentFile (app w)
   \<and> reads (addToHistory stringify hist now u a w) = reads w
   \<and> calls (addToHistory stringify hist now u a w) = calls w"
  by (simp add: addToHistory_def Let_def setItem_def)

text \<open>
  Claim C4. When the first persistence attempt of an append is refused, the append makes
  exactly one more attempt, with the record's preview replaced by the empty string and
  its id, timestamp, file name, content type and verdict as they were. If the storage
  takes the second attempt, that list is the persisted one and the one in memory. If it
  refuses it too, the persisted content and the list in memory stay as they were. In
  both cases the session that called the append is Completed with its verdict.
\<close>

theorem append_fallback:
  assumes "\<not> accepts (storage w) KEY (stringify (newItem_of now u a # hist))"
  shows "let w' = addToHistory stringify hist now u a w;
             elided = (newItem_of now u a)\<lparr>item_previewUrl := []\<rparr> in
           attempts (storage w') = attempts (storage w) @
             [(KEY, stringify (newItem_of now u a # hist)), (KEY, stringify (elided # hist))]
         \<and> elided = \<lparr>item_id = toString (fst now), timestamp = snd now,
                      fileName = name (file_f u), fileType = mimeType u,
                      item_previewUrl = [], item_result = a\<rparr>
         \<and> (accepts (storage w) KEY (stringify (elided # hist)) \<longrightarrow>
               items (storage w') KEY = Some (stringify (elided # hist))
             \<and> history (app w') = elided # hist)
         \<and> (\<not> accepts (storage w) KEY (stringify (elided # hist)) \<longrightarrow>
               items (storage w') = items (storage w)
             \<and> history (app w') = history (app w))
         \<and> status (app (analyze_resolved stringify hist now u a w)) = COMPLETED
         \<and> result (app (analyze_resolved stringify hist now u a w)) = Some a"
proof (cases "accepts (storage w) KEY
    (stringify ((newItem_of now u a)\<lparr>item_previewUrl := []\<rparr> # hist))")
  case True
  with assms show ?thesis
    by (simp add: Let_def addToHistory_second analyze_resolved_def addToHistory_session
        newItem_of_def)
next
  case False
  with assms show ?thesis
    by (simp add: Let_def addToHistory_none analyze_resolved_def addToHistory_session
        newItem_of_def)
qed

text \<open>
  Claim C10. When the storage refuses both persistence attempts of an append, the list
  in memory is left as it was, like the persisted content: it holds no record of the
  analysis (no record with the new id, if none had it before), while the session is
  Completed with the verdict.
\<close>

theorem append_dropped:
  assumes "\<not> accepts (storage w) KEY (stringify (newItem_of now u a # hist))"
    and "\<not> accepts (storage w) KEY
           (stringify ((newItem_of now u a)\<lparr>item_previewUrl := []\<rparr> # hist))"
  shows "history (app (addToHistory stringify hist now u a w)) = history (app w)
       \<and> history (app (analyze_resolved stringify hist now u a w)) = history (app w)
       \<and> items (storage (analyze_resolved stringify hist now u a w)) = items (storage w)
       \<and> status (app (analyze_resolved stringify hist now u a w)) = COMPLETED
       \<and> result (app (analyze_resolved stringify hist now u a w)) = Some a
       \<and> ((\<forall>x \<in> set (history (app w)). item_id x \<noteq> toString (fst now)) \<longrightarrow>
            (\<forall>x \<in> set (history (app (analyze_resolved stringify hist now u a w))).
               item_id x \<noteq> toString (fst now)))"
proof -
  let ?w1 = "w\<lparr>app := (app w)\<lparr>result := Some a, status := COMPLETED\<rparr>\<rparr>"
  have "\<not> accepts (storage ?w1) KEY (stringify (newItem_of now u a # hist))"
    and "\<not> accepts (storage ?w1) KEY
           (stringify ((newItem_of now u a)\<lparr>item_previewUrl := []\<rparr> # hist))"
    using assms by simp_all
  then have r: "analyze_resolved stringify hist now u a w =
     ?w1\<lparr>storage := (storage ?w1)
         \<lparr>attempts := attempts (storage ?w1) @
             [(KEY, stringify (newItem_of now u a # hist)),
              (KEY, stringify ((newItem_of now u a)\<lparr>item_previewUrl := []\<rparr> # hist))]\<rparr>\<rparr>"
    unfolding analyze_resolved_def by (rule addToHistory_none)
  show ?thesis
    using assms by (simp add: r addToHistory_none)
qed


lemma nat_toString_small: "n < 10 \<Longrightarrow> nat_toString n = [digit n]"
  by (subst nat_toString.simps) simp

lemma nat_toString_large:
  "\<not> n < 10 \<Longrightarrow> nat_toString n = nat_toString (n div 10) @ [digit (n mod 10)]"
  by (subst nat_toString.simps) simp

lemmas toString_eval = toString_def nat_toString_small nat_toString_large digit_def

lemma example_new_full:
  "example_stringify [newItem_of (1700000000000, 1700000000001) example_upload example_result]
     = ''1700000000000:data:image/png;base64,QUJD;''"
  by (simp add: example_stringify_def newItem_of_def example_upload_def example_url_def
      toString_eval)

lemma example_new_elided:
  "example_stringify
     [(newItem_of (1700000000000, 1700000000001) example_upload example_result)
        \<lparr>item_previewUrl := []\<rparr>]
     = ''1700000000000:;''"
  by (simp add: example_stringify_def newItem_of_def toString_eval)

text \<open>
  The theorem of C4 at a storage that takes 20 characters: the full record is refused,
  the record without preview is taken.
\<close>

theorem append_fallback_witness:
  "\<not> accepts (storage (initial_world 20)) KEY
       (example_stringify
          [newItem_of (1700000000000, 1700000000001) example_upload example_result])
   \<and> history (app (addToHistory example_stringify [] (1700000000000, 1700000000001)
         example_upload example_result (initial_world 20)))
       = [\<lparr>item_id = ''1700000000000'', timestamp = 1700000000001, fileName = ''cat.png'',
           fileType = ''image/png'', item_previewUrl = [], item_result = example_result\<rparr>]
   \<and> items (storage (addToHistory example_stringify [] (1700000000000, 1700000000001)
         example_upload example_result (initial_world 20))) KEY
       = Some ''1700000000000:;''
   \<and> attempts (storage (addToHistory example_stringify [] (1700000000000, 1700000000001)
         example_upload example_result (initial_world 20)))
       = [(KEY, ''1700000000000:data:image/png;base64,QUJD;''), (KEY, ''1700000000000:;'')]
   \<and> status (app (analyze_resolved example_stringify [] (1700000000000, 1700000000001)
         example_upload example_result (initial_world 20))) = COMPLETED"
proof -
  have h: "\<not> accepts (storage (initial_world 20)) KEY
       (example_stringify
          [newItem_of (1700000000000, 1700000000001) example_upload example_result])"
    by (simp add: example_new_full initial_world_def example_storage_def)
  have g: "accepts (storage (initial_world 20)) KEY
       (example_stringify
          [(newItem_of (1700000000000, 1700000000001) example_upload example_result)
             \<lparr>item_previewUrl := []\<rparr>])"
    by (simp add: example_new_elided initial_world_def example_storage_def)
  have e: "(newItem_of (1700000000000, 1700000000001) example_upload example_result)
             \<lparr>item_previewUrl := []\<rparr>
     = \<lparr>item_id = ''1700000000000'', timestamp = 1700000000001, fileName = ''cat.png'',
           fileType = ''image/png'', item_previewUrl = [], item_result = example_result\<rparr>"
    by (simp add: newItem_of_def toString_eval example_upload_def example_file_def)
  have a: "attempts (storage (initial_world 20)) = []"
    by (simp add: initial_world_def example_storage_def)
  let ?el = "(newItem_of (1700000000000, 1700000000001) example_upload example_result)
             \<lparr>item_previewUrl := []\<rparr>"
  let ?w' = "addToHistory example_stringify [] (1700000000000, 1700000000001)
         example_upload example_result (initial_world 20)"
  note t = append_fallback
    [where stringify = example_stringify and hist = "[]"
       and now = "(1700000000000, 1700000000001)" and u = example_upload
       and a = example_result and w = "initial_world 20", unfolded Let_def, OF h]
  have f1: "attempts (storage ?w') = attempts (storage (initial_world 20)) @
      [(KEY, example_stringify
          [newItem_of (1700000000000, 1700000000001) example_upload example_result]),
       (KEY, example_stringify [?el])]"
    using t by blast
  have f2: "items (storage ?w') KEY = Some (example_stringify [?el])"
    using t g by blast
  have f3: "history (app ?w') = [?el]"
    using t g by blast
  have f4: "status (app (analyze_resolved example_stringify [] (1700000000000, 1700000000001)
         example_upload example_result (initial_world 20))) = COMPLETED"
    using t by blast
  show ?thesis
    using h f4 by (simp only: f1 f2 f3 e a example_new_full example_new_elided append_Nil)
       (simp add: example_stringify_def)
qed

text \<open>The theorem of C10 at a storage that takes nothing.\<close>

theorem append_dropped_witness:
  "\<not> accepts (storage (initial_world 0)) KEY
       (example_stringify
          [newItem_of (1700000000000, 1700000000001) example_upload example_result])
   \<and> \<not> accepts (storage (initial_world 0)) KEY
       (example_stringify
          [(newItem_of (1700000000000, 1700000000001) example_upload example_result)
             \<lparr>item_previewUrl := []\<rparr>])
   \<and> history (app (analyze_resolved example_stringify [] (1700000000000, 1700000000001)
         example_upload example_result (initial_world 0))) = []
   \<and> status (app (analyze_resolved example_stringify [] (1700000000000, 1700000000001)
         example_upload example_result (initial_world 0))) = COMPLETED
   \<and> result (app (analyze_resolved example_stringify [] (1700000000000, 1700000000001)
         example_upload example_result (initial_world 0))) = Some example_result"
proof -
  have h: "\<not> accepts (storage (initial_world 0)) KEY
       (example_stringify
          [newItem_of (1700000000000, 1700000000001) example_upload example_result])"
    by (simp add: example_new_full initial_world_def example_storage_def)
  have g: "\<not> accepts (storage (initial_world 0)) KEY
       (example_stringify
          [(newItem_of (1700000000000, 1700000000001) example_upload example_result)
             \<lparr>item_previewUrl := []\<rparr>])"
    by (simp add: example_new_elided initial_world_def example_storage_def)
  have i: "history (app (initial_world 0)) = []"
    by (simp add: initial_world_def initial_app_def)
  show ?thesis
    using h g i append_dropped
    [where stringify = example_stringify and hist = "[]"
       and now = "(1700000000000, 1700000000001)" and u = example_upload
       and a = example_result and w = "initial_world 0", OF h g] by simp
qed

lemma newest_first_Cons:
  "newest_first (x # h) \<longleftrightarrow> (\<forall>y \<in> set h. timestamp y \<le> timestamp x) \<and> newest_first h"
  by (simp add: newest_first_def)

lemma newest_first_filter: "newest_first h \<Longrightarrow> newest_first (filter P h)"
  by (simp add: newest_first_def sorted_wrt_filter)

lemma deleteHistoryItem_history:
  "history (app (snd (deleteHistoryItem stringify i w)))
     = filter (\<lambda>item. item_id item \<noteq> i) (history (app w))"
  by (simp add: deleteHistoryItem_def Let_def setItem_def)

lemma deleteHistoryItem_accepted:
  "accepts (storage w) KEY (stringify (filter (\<lambda>item. item_id item \<noteq> i) (history (app w))))
   \<Longrightarrow> deleteHistoryItem stringify i w =
     (None,
      w\<lparr>app := (app w)\<lparr>history := filter (\<lambda>item. item_id item \<noteq> i) (history (app w))\<rparr>,
        storage := (storage w)
          \<lparr>items := (items (storage w))
              (KEY \<mapsto> stringify (filter (\<lambda>item. item_id item \<noteq> i) (history (app w)))),
           attempts := attempts (storage w) @
              [(KEY, stringify (filter (\<lambda>item. item_id item \<noteq> i) (history (app w))))]\<rparr>\<rparr>)"
  by (simp add: deleteHistoryItem_def Let_def setItem_def)

lemma deleteHistoryItem_rejected:
  "\<not> accepts (storage w) KEY
       (stringify (filter (\<lambda>item. item_id item \<noteq> i) (history (app w))))
   \<Longrightarrow> deleteHistoryItem stringify i w =
     (Some QuotaExceededError,
      w\<lparr>app := (app w)\<lparr>history := filter (\<lambda>item. item_id item \<noteq> i) (history (app w))\<rparr>,
        storage := (storage w)
          \<lparr>attempts := attempts (storage w) @
              [(KEY, stringify (filter (\<lambda>item. item_id item \<noteq> i) (history (app w))))]\<rparr>\<rparr>)"
  by (simp add: deleteHistoryItem_def Let_def setItem_def)

lemma session_steps_keep_history:
  "history (app (processFile f w)) = history (app w) \<and> storage (processFile f w) = storage w
   \<and> history (app (reader_onload f r w)) = history (app w)
   \<and> storage (reader_onload f r w) = storage w
   \<and> history (app (analyze_rejected e w)) = history (app w)
   \<and> storage (analyze_rejected e w) = storage w
   \<and> history (app (reader_onerror w)) = history (app w) \<and> storage (reader_onerror w) = storage w
   \<and> history (app (handleReset w)) = history (app w) \<and> storage (handleReset w) = storage w
   \<and> history (app (retry w)) = history (app w) \<and> storage (retry w) = storage w
   \<and> history (app (loadHistoryItem item w)) = history (app w)
   \<and> storage (loadHistoryItem item w) = storage w"
  by (simp add: processFile_def reader_onload_def analyze_rejected_def reader_onerror_def
      handleReset_def retry_def loadHistoryItem_def split: sum.splits option.splits)

lemma analyze_resolved_history:
  "history (app (analyze_resolved stringify hist now u a w))
     = history (app (addToHistory stringify hist now u a w))
   \<and> items (storage (analyze_resolved stringify hist now u a w))
     = items (storage (addToHistory stringify hist now u a w))"
  by (simp add: analyze_resolved_def addToHistory_def Let_def setItem_def)

lemma loadHistory_newest_first:
  assumes "newest_first (history (app w))"
    and "\<forall>s h. getItem KEY (storage w) = Some s \<and> parse s = Some h \<longrightarrow> newest_first h"
  shows "newest_first (history (app (loadHistory parse w)))"
  using assms by (auto simp: loadHistory_def split: option.splits)

lemma append_accepted_newest_first:
  assumes acc: "accepts (storage w) KEY (stringify (newItem_of now u a # hist))
      \<or> accepts (storage w) KEY
           (stringify ((newItem_of now u a)\<lparr>item_previewUrl := []\<rparr> # hist))"
    and nf: "newest_first hist"
    and clock: "\<forall>x \<in> set hist. timestamp x \<le> snd now"
  shows "(history (app (addToHistory stringify hist now u a w)) = newItem_of now u a # hist
          \<or> history (app (addToHistory stringify hist now u a w))
               = (newItem_of now u a)\<lparr>item_previewUrl := []\<rparr> # hist)
       \<and> newest_first (history (app (addToHistory stringify hist now u a w)))
       \<and> items (storage (addToHistory stringify hist now u a w)) KEY
            = Some (stringify (history (app (addToHistory stringify hist now u a w))))"
proof (cases "accepts (storage w) KEY (stringify (newItem_of now u a # hist))")
  case True
  have "newest_first (newItem_of now u a # hist)"
    using nf clock by (simp add: newest_first_Cons newItem_of_def)
  with True show ?thesis by (simp add: addToHistory_first)
next
  case False
  with acc have s: "accepts (storage w) KEY
           (stringify ((newItem_of now u a)\<lparr>item_previewUrl := []\<rparr> # hist))"
    by simp
  have "newest_first ((newItem_of now u a)\<lparr>item_previewUrl := []\<rparr> # hist)"
    using nf clock by (simp add: newest_first_Cons newItem_of_def)
  with False s show ?thesis by (simp add: addToHistory_second)
qed

lemma addToHistory_accepts:
  "accepts (storage (addToHistory stringify hist now u a w)) = accepts (storage w)"
  by (simp add: addToHistory_def Let_def setItem_def)

lemma deleteHistoryItem_accepts:
  "accepts (storage (snd (deleteHistoryItem stringify i w))) = accepts (storage w)"
  by (simp add: deleteHistoryItem_def Let_def setItem_def)

text \<open>
  Claim C6, amended. An append whose full record the storage takes puts that record,
  with its preview, first in the list, in front of the list it captured, and the persisted
  content is the serialisation of that same list. When the storage refuses the full
  record and takes the record without preview, the same holds of the record without its
  preview. When it refuses both, the list and the persisted content are as before. The
  result of \<^verbatim>\<open>analyzeMedia\<close> resolving is that of the append. After an append that the
  storage takes, the list is newest first by timestamp, provided the captured list was
  and the clock reading taken for the timestamp is not earlier than its timestamps. A
  removal keeps a newest-first list newest first, and what it persists, when the storage
  takes the write, is the list in memory. Loading keeps the order if what the persisted
  content parses to is newest first. No other operation changes the list or the storage.
\<close>

theorem history_newest_first:
  "(accepts (storage w) KEY (stringify (newItem_of now u a # hist)) \<longrightarrow>
      history (app (addToHistory stringify hist now u a w)) = newItem_of now u a # hist
      \<and> items (storage (addToHistory stringify hist now u a w)) KEY
           = Some (stringify (newItem_of now u a # hist)))
   \<and> (\<not> accepts (storage w) KEY (stringify (newItem_of now u a # hist))
       \<and> accepts (storage w) KEY
           (stringify ((newItem_of now u a)\<lparr>item_previewUrl := []\<rparr> # hist)) \<longrightarrow>
      history (app (addToHistory stringify hist now u a w))
           = (newItem_of now u a)\<lparr>item_previewUrl := []\<rparr> # hist
      \<and> items (storage (addToHistory stringify hist now u a w)) KEY
           = Some (stringify ((newItem_of now u a)\<lparr>item_previewUrl := []\<rparr> # hist)))
   \<and> (\<not> accepts (storage w) KEY (stringify (newItem_of now u a # hist))
       \<and> \<not> accepts (storage w) KEY
           (stringify ((newItem_of now u a)\<lparr>item_previewUrl := []\<rparr> # hist)) \<longrightarrow>
      history (app (addToHistory stringify hist now u a w)) = history (app w)
      \<and> items (storage (addToHistory stringify hist now u a w)) = items (storage w))
   \<and> ((accepts (storage w) KEY (stringify (newItem_of now u a # hist))
        \<or> accepts (storage w) KEY
             (stringify ((newItem_of now u a)\<lparr>item_previewUrl := []\<rparr> # hist)))
       \<and> newest_first hist \<and> (\<forall>x \<in> set hist. timestamp x \<le> snd now) \<longrightarrow>
      newest_first (history (app (addToHistory stringify hist now u a w))))
   \<and> history (app (analyze_resolved stringify hist now u a w))
        = history (app (addToHistory stringify hist now u a w))
   \<and> items (storage (analyze_resolved stringify hist now u a w))
        = items (storage (addToHistory stringify hist now u a w))
   \<and> (newest_first (history (app w)) \<longrightarrow>
        newest_first (history (app (snd (deleteHistoryItem stringify i w)))))
   \<and> (accepts (storage w) KEY
          (stringify (filter (\<lambda>item. item_id item \<noteq> i) (history (app w)))) \<longrightarrow>
        items (storage (snd (deleteHistoryItem stringify i w))) KEY
          = Some (stringify (history (app (snd (deleteHistoryItem stringify i w))))))
   \<and> (newest_first (history (app w))
        \<and> (\<forall>s h. getItem KEY (storage w) = Some s \<and> parse s = Some h \<longrightarrow> newest_first h)
       \<longrightarrow> newest_first (history (app (loadHistory parse w))))
   \<and> history (app (processFile f w)) = history (app w) \<and> storage (processFile f w) = storage w
   \<and> history (app (reader_onload f r w)) = history (app w)
   \<and> storage (reader_onload f r w) = storage w
   \<and> history (app (analyze_rejected e w)) = history (app w)
   \<and> storage (analyze_rejected e w) = storage w
   \<and> history (app (reader_onerror w)) = history (app w) \<and> storage (reader_onerror w) = storage w
   \<and> history (app (handleReset w)) = history (app w) \<and> storage (handleReset w) = storage w
   \<and> history (app (retry w)) = history (app w) \<and> storage (retry w) = storage w
   \<and> history (app (loadHistoryItem item w)) = history (app w)
   \<and> storage (loadHistoryItem item w) = storage w"
proof -
  let ?new = "newItem_of now u a"
  let ?el = "(newItem_of now u a)\<lparr>item_previewUrl := []\<rparr>"
  let ?w' = "addToHistory stringify hist now u a w"
  have A1: "accepts (storage w) KEY (stringify (?new # hist)) \<longrightarrow>
      history (app ?w') = ?new # hist
      \<and> items (storage ?w') KEY = Some (stringify (?new # hist))"
    by (simp add: addToHistory_first)
  have A2: "\<not> accepts (storage w) KEY (stringify (?new # hist))
       \<and> accepts (storage w) KEY (stringify (?el # hist)) \<longrightarrow>
      history (app ?w') = ?el # hist
      \<and> items (storage ?w') KEY = Some (stringify (?el # hist))"
    by (simp add: addToHistory_second)
  have A3: "\<not> accepts (storage w) KEY (stringify (?new # hist))
       \<and> \<not> accepts (storage w) KEY (stringify (?el # hist)) \<longrightarrow>
      history (app ?w') = history (app w) \<and> items (storage ?w') = items (storage w)"
    by (simp add: addToHistory_none)
  have A4: "(accepts (storage w) KEY (stringify (?new # hist))
        \<or> accepts (storage w) KEY (stringify (?el # hist)))
       \<and> newest_first hist \<and> (\<forall>x \<in> set hist. timestamp x \<le> snd now) \<longrightarrow>
      newest_first (history (app ?w'))"
    using append_accepted_newest_first [of w stringify now u a hist] by blast
  note A5 = analyze_resolved_history [of stringify hist now u a w]
  have B: "newest_first (history (app w)) \<longrightarrow>
        newest_first (history (app (snd (deleteHistoryItem stringify i w))))"
    by (simp add: deleteHistoryItem_history newest_first_filter)
  have C: "accepts (storage w) KEY
          (stringify (filter (\<lambda>item. item_id item \<noteq> i) (history (app w)))) \<longrightarrow>
        items (storage (snd (deleteHistoryItem stringify i w))) KEY
          = Some (stringify (history (app (snd (deleteHistoryItem stringify i w)))))"
    by (simp add: deleteHistoryItem_accepted)
  have D: "newest_first (history (app w))
        \<and> (\<forall>s h. getItem KEY (storage w) = Some s \<and> parse s = Some h \<longrightarrow> newest_first h)
       \<longrightarrow> newest_first (history (app (loadHistory parse w)))"
    using loadHistory_newest_first by blast
  from A1 A2 A3 A4 A5 B C D session_steps_keep_history [of f w r e item] show ?thesis
    by blast
qed

lemma example_stringify_filter:
  "length (example_stringify (filter P h)) \<le> length (example_stringify h)"
  by (induction h) (simp_all add: example_stringify_def)

lemma remove_write_fits:
  assumes cap: "\<forall>v. accepts (storage w) KEY v \<longleftrightarrow> length v \<le> cap"
    and mono: "\<forall>h P. length (stringify (filter P h)) \<le> length (stringify h)"
    and fit: "length (stringify (history (app w))) \<le> cap"
  shows "length (stringify (filter (\<lambda>item. item_id item \<noteq> i) (history (app w)))) \<le> cap"
    and "accepts (storage w) KEY
      (stringify (filter (\<lambda>item. item_id item \<noteq> i) (history (app w))))"
proof -
  have "length (stringify (filter (\<lambda>item. item_id item \<noteq> i) (history (app w))))
      \<le> length (stringify (history (app w)))"
    using mono by blast
  then show l: "length (stringify (filter (\<lambda>item. item_id item \<noteq> i) (history (app w)))) \<le> cap"
    using fit by simp
  then show "accepts (storage w) KEY
      (stringify (filter (\<lambda>item. item_id item \<noteq> i) (history (app w))))"
    using cap by blast
qed

text \<open>
  That the list in memory fits the storage is kept by every operation: an append changes
  the list only to one the storage has just taken, a removal shortens its serialisation,
  and the session's steps leave the list alone; no operation changes what the storage
  takes.
\<close>

lemma list_fits_preserved:
  assumes cap: "\<forall>v. accepts (storage w) KEY v \<longleftrightarrow> length v \<le> cap"
    and fit: "length (stringify (history (app w))) \<le> cap"
  shows "length (stringify (history (app (addToHistory stringify hist now u a w)))) \<le> cap"
    and "length (stringify (history (app (analyze_resolved stringify hist now u a w)))) \<le> cap"
    and "(\<forall>h P. length (stringify (filter P h)) \<le> length (stringify h)) \<Longrightarrow>
      length (stringify (history (app (snd (deleteHistoryItem stringify i w))))) \<le> cap"
    and "length (stringify (history (app (processFile f w)))) \<le> cap"
    and "length (stringify (history (app (reader_onload f r w)))) \<le> cap"
    and "length (stringify (history (app (analyze_rejected e w)))) \<le> cap"
    and "length (stringify (history (app (reader_onerror w)))) \<le> cap"
    and "length (stringify (history (app (handleReset w)))) \<le> cap"
    and "length (stringify (history (app (retry w)))) \<le> cap"
    and "length (stringify (history (app (loadHistoryItem item w)))) \<le> cap"
proof -
  show a: "length (stringify (history (app (addToHistory stringify hist now u a w)))) \<le> cap"
  proof (cases "accepts (storage w) KEY (stringify (newItem_of now u a # hist))")
    case True
    then show ?thesis using cap by (simp add: addToHistory_first)
  next
    case f: False
    show ?thesis
    proof (cases "accepts (storage w) KEY
        (stringify ((newItem_of now u a)\<lparr>item_previewUrl := []\<rparr> # hist))")
      case True
      with f show ?thesis using cap by (simp add: addToHistory_second)
    next
      case False
      with f show ?thesis using fit by (simp add: addToHistory_none)
    qed
  qed
  show "length (stringify (history (app (analyze_resolved stringify hist now u a w)))) \<le> cap"
    using a by (simp add: analyze_resolved_history)
  show "(\<forall>h P. length (stringify (filter P h)) \<le> length (stringify h)) \<Longrightarrow>
      length (stringify (history (app (snd (deleteHistoryItem stringify i w))))) \<le> cap"
  proof -
    assume mono: "\<forall>h P. length (stringify (filter P h)) \<le> length (stringify h)"
    show ?thesis
      using remove_write_fits(1)
        [where stringify = stringify and w = w and cap = cap and i = i, OF cap mono fit]
      by (simp add: deleteHistoryItem_history)
  qed
  show "length (stringify (history (app (processFile f w)))) \<le> cap"
    and "length (stringify (history (app (reader_onload f r w)))) \<le> cap"
    and "length (stringify (history (app (analyze_rejected e w)))) \<le> cap"
    and "length (stringify (history (app (reader_onerror w)))) \<le> cap"
    and "length (stringify (history (app (handleReset w)))) \<le> cap"
    and "length (stringify (history (app (retry w)))) \<le> cap"
    and "length (stringify (history (app (loadHistoryItem item w)))) \<le> cap"
    using fit by (simp_all add: session_steps_keep_history)
qed

text \<open>
  Loading keeps it too, when what the storage holds fits it and re-serialising what was
  parsed is not longer than the text parsed; and that the storage holds only what fits is
  kept by every operation, since only an accepted write changes its content.
\<close>

lemma load_fits:
  assumes fit: "length (stringify (history (app w))) \<le> cap"
    and stored: "\<forall>s. getItem KEY (storage w) = Some s \<longrightarrow> length s \<le> cap"
    and roundtrip: "\<forall>s h. parse s = Some h \<longrightarrow> length (stringify h) \<le> length s"
  shows "length (stringify (history (app (loadHistory parse w)))) \<le> cap"
proof (cases "getItem KEY (storage w)")
  case None
  then show ?thesis using fit by (simp add: loadHistory_def)
next
  case (Some saved)
  show ?thesis
  proof (cases "parse saved")
    case None
    with Some show ?thesis using fit by (simp add: loadHistory_def)
  next
    case h: (Some h)
    have "length (stringify h) \<le> length saved" using roundtrip h by blast
    moreover have "length saved \<le> cap" using stored Some by blast
    ultimately have "length (stringify h) \<le> cap" by simp
    with Some h show ?thesis using fit by (simp add: loadHistory_def)
  qed
qed

lemma stored_fits_preserved:
  assumes cap: "\<forall>v. accepts (storage w) KEY v \<longleftrightarrow> length v \<le> cap"
    and stored: "\<forall>s. getItem KEY (storage w) = Some s \<longrightarrow> length s \<le> cap"
  shows "\<forall>s. getItem KEY (storage (addToHistory stringify hist now u a w)) = Some s
           \<longrightarrow> length s \<le> cap"
    and "\<forall>s. getItem KEY (storage (snd (deleteHistoryItem stringify i w))) = Some s
           \<longrightarrow> length s \<le> cap"
    and "\<forall>s. getItem KEY (storage (loadHistory parse w)) = Some s \<longrightarrow> length s \<le> cap"
proof -
  show "\<forall>s. getItem KEY (storage (addToHistory stringify hist now u a w)) = Some s
           \<longrightarrow> length s \<le> cap"
    using cap stored
    by (auto simp: addToHistory_def Let_def setItem_def getItem_def split: if_splits)
  show "\<forall>s. getItem KEY (storage (snd (deleteHistoryItem stringify i w))) = Some s
           \<longrightarrow> length s \<le> cap"
    using cap stored
    by (auto simp: deleteHistoryItem_def Let_def setItem_def getItem_def split: if_splits)
  show "\<forall>s. getItem KEY (storage (loadHistory parse w)) = Some s \<longrightarrow> length s \<le> cap"
    using stored by (auto simp: loadHistory_def split: option.splits)
qed

text \<open>
  Claim C8. A removal filters the records with the given id out of the list in memory:
  afterwards no record has that id, removing an id that no record has leaves the list as
  it was, and removing twice gives the list of removing once. Every removal makes
  exactly one write of the updated list, at once, and a write that the storage takes
  makes the updated list the persisted content. A storage bounded by capacity does take
  it: where the storage takes the values of up to some length, the serialisation of a
  list does not grow when records are filtered out, and the list in memory is one that
  fits, the removal persists the updated list, a second removal of the same id persists
  the same list, and the updated list fits again.
\<close>

theorem remove_idempotent:
  "history (app (snd (deleteHistoryItem stringify i w)))
     = filter (\<lambda>item. item_id item \<noteq> i) (history (app w))
   \<and> (\<forall>x \<in> set (history (app (snd (deleteHistoryItem stringify i w)))). item_id x \<noteq> i)
   \<and> ((\<forall>x \<in> set (history (app w)). item_id x \<noteq> i) \<longrightarrow>
        history (app (snd (deleteHistoryItem stringify i w))) = history (app w))
   \<and> history (app (snd (deleteHistoryItem stringify i (snd (deleteHistoryItem stringify i w)))))
        = history (app (snd (deleteHistoryItem stringify i w)))
   \<and> attempts (storage (snd (deleteHistoryItem stringify i w)))
        = attempts (storage w)
            @ [(KEY, stringify (history (app (snd (deleteHistoryItem stringify i w)))))]
   \<and> (accepts (storage w) KEY (stringify (history (app (snd (deleteHistoryItem stringify i w)))))
        \<longrightarrow> fst (deleteHistoryItem stringify i w) = None
          \<and> items (storage (snd (deleteHistoryItem stringify i w))) KEY
               = Some (stringify (history (app (snd (deleteHistoryItem stringify i w))))))
   \<and> ((\<forall>v. accepts (storage w) KEY v \<longleftrightarrow> length v \<le> cap)
       \<and> (\<forall>h P. length (stringify (filter P h)) \<le> length (stringify h))
       \<and> length (stringify (history (app w))) \<le> cap
        \<longrightarrow> fst (deleteHistoryItem stringify i w) = None
          \<and> items (storage (snd (deleteHistoryItem stringify i w))) KEY
               = Some (stringify (history (app (snd (deleteHistoryItem stringify i w)))))
          \<and> items (storage (snd (deleteHistoryItem stringify i
                 (snd (deleteHistoryItem stringify i w))))) KEY
               = Some (stringify (history (app (snd (deleteHistoryItem stringify i w)))))
          \<and> length (stringify (history (app (snd (deleteHistoryItem stringify i w))))) \<le> cap)"
proof -
  let ?h' = "filter (\<lambda>item. item_id item \<noteq> i) (history (app w))"
  let ?w1 = "snd (deleteHistoryItem stringify i w)"
  have h1: "history (app ?w1) = ?h'"
    by (rule deleteHistoryItem_history)
  have n: "(\<forall>x \<in> set (history (app w)). item_id x \<noteq> i) \<longrightarrow> ?h' = history (app w)"
    by (simp add: filter_id_conv)
  have twice: "filter (\<lambda>item. item_id item \<noteq> i) ?h' = ?h'"
    by simp
  have h2: "history (app (snd (deleteHistoryItem stringify i ?w1))) = ?h'"
    by (simp only: deleteHistoryItem_history h1 twice)
  have att: "attempts (storage ?w1) = attempts (storage w) @ [(KEY, stringify ?h')]"
    by (simp add: deleteHistoryItem_def Let_def setItem_def)
  have acc: "accepts (storage w) KEY (stringify ?h') \<longrightarrow>
      fst (deleteHistoryItem stringify i w) = None
      \<and> items (storage ?w1) KEY = Some (stringify ?h')"
    by (simp add: deleteHistoryItem_accepted)
  have capp: "(\<forall>v. accepts (storage w) KEY v \<longleftrightarrow> length v \<le> cap)
       \<and> (\<forall>h P. length (stringify (filter P h)) \<le> length (stringify h))
       \<and> length (stringify (history (app w))) \<le> cap
        \<longrightarrow> fst (deleteHistoryItem stringify i w) = None
          \<and> items (storage ?w1) KEY = Some (stringify ?h')
          \<and> items (storage (snd (deleteHistoryItem stringify i ?w1))) KEY
               = Some (stringify ?h')
          \<and> length (stringify ?h') \<le> cap"
  proof (intro impI, elim conjE)
    assume cap: "\<forall>v. accepts (storage w) KEY v \<longleftrightarrow> length v \<le> cap"
      and mono: "\<forall>h P. length (stringify (filter P h)) \<le> length (stringify h)"
      and fit: "length (stringify (history (app w))) \<le> cap"
    note l = remove_write_fits(1)
      [where stringify = stringify and w = w and cap = cap and i = i, OF cap mono fit]
    note a = remove_write_fits(2)
      [where stringify = stringify and w = w and cap = cap and i = i, OF cap mono fit]
    have a1: "accepts (storage ?w1) KEY
        (stringify (filter (\<lambda>item. item_id item \<noteq> i) (history (app ?w1))))"
      using a by (simp only: deleteHistoryItem_accepts h1 twice)
    have "items (storage (snd (deleteHistoryItem stringify i ?w1))) KEY
        = Some (stringify (filter (\<lambda>item. item_id item \<noteq> i) (history (app ?w1))))"
      by (simp add: deleteHistoryItem_accepted
          [where stringify = stringify and i = i
             and w = "snd (deleteHistoryItem stringify i w)", OF a1])
    then have p2: "items (storage (snd (deleteHistoryItem stringify i ?w1))) KEY
        = Some (stringify ?h')"
      by (simp only: h1 twice)
    show "fst (deleteHistoryItem stringify i w) = None
          \<and> items (storage ?w1) KEY = Some (stringify ?h')
          \<and> items (storage (snd (deleteHistoryItem stringify i ?w1))) KEY
               = Some (stringify ?h')
          \<and> length (stringify ?h') \<le> cap"
      using acc a p2 l by blast
  qed
  have ids: "\<forall>x \<in> set ?h'. item_id x \<noteq> i" by simp
  show ?thesis
    unfolding h2 h1 using n att acc capp ids by blast
qed


lemma example_items_stringify:
  "example_stringify [example_item ''2'' 2, example_item ''1'' 1] = ''2:;1:;''
   \<and> example_stringify [example_item ''1'' 1] = ''1:;''"
  by (simp add: example_stringify_def example_item_def)

lemma stored_world_fields:
  "history (app (stored_world cap)) = [example_item ''2'' 2, example_item ''1'' 1]
   \<and> accepts (storage (stored_world cap)) = (\<lambda>k v. length v \<le> cap)
   \<and> items (storage (stored_world cap)) = [KEY \<mapsto> ''2:;1:;'']
   \<and> attempts (storage (stored_world cap)) = []"
  by (simp add: stored_world_def initial_app_def)

lemma stored_world_accepts:
  "accepts (storage (stored_world cap)) k v \<longleftrightarrow> length v \<le> cap"
  by (simp add: stored_world_def)

lemma stored_world_filter:
  "filter (\<lambda>item. item_id item \<noteq> ''2'') (history (app (stored_world cap)))
     = [example_item ''1'' 1]
   \<and> filter (\<lambda>item. item_id item \<noteq> ''3'') (history (app (stored_world cap)))
     = [example_item ''2'' 2, example_item ''1'' 1]"
  by (simp add: stored_world_fields example_item_def)


text \<open>
  The theorem of C8 at a world with two records and a storage of 20 characters: removing
  a present id, removing it twice, and removing an absent id.
\<close>

theorem remove_idempotent_witness:
  "length (example_stringify (history (app (stored_world 20)))) \<le> 20
   \<and> fst (deleteHistoryItem example_stringify ''2'' (stored_world 20)) = None
   \<and> history (app (snd (deleteHistoryItem example_stringify ''2'' (stored_world 20))))
     = [example_item ''1'' 1]
   \<and> items (storage (snd (deleteHistoryItem example_stringify ''2'' (stored_world 20)))) KEY
     = Some ''1:;''
   \<and> items (storage (snd (deleteHistoryItem example_stringify ''2''
        (snd (deleteHistoryItem example_stringify ''2'' (stored_world 20)))))) KEY
     = Some ''1:;''
   \<and> history (app (snd (deleteHistoryItem example_stringify ''3'' (stored_world 20))))
     = history (app (stored_world 20))"
proof -
  let ?d = "deleteHistoryItem example_stringify ''2'' (stored_world 20)"
  note t = remove_idempotent [of example_stringify "''2''" "stored_world 20" 20]
  note t3 = remove_idempotent [of example_stringify "''3''" "stored_world 20" 20]
  note last = conjunct2 [THEN conjunct2, THEN conjunct2, THEN conjunct2, THEN conjunct2,
      THEN conjunct2]
  have "history (app (snd ?d))
      = filter (\<lambda>item. item_id item \<noteq> ''2'') (history (app (stored_world 20)))"
    by (rule t [THEN conjunct1])
  then have h: "history (app (snd ?d)) = [example_item ''1'' 1]"
    by (simp only: stored_world_filter)
  have H1: "\<forall>v. accepts (storage (stored_world 20)) KEY v \<longleftrightarrow> length v \<le> 20"
    by (simp add: stored_world_accepts)
  have H2: "\<forall>h P. length (example_stringify (filter P h)) \<le> length (example_stringify h)"
    by (simp add: example_stringify_filter)
  have H3: "length (example_stringify (history (app (stored_world 20)))) \<le> 20"
    by (simp add: stored_world_fields example_items_stringify)
  note c = t [THEN last, THEN mp, OF conjI [OF H1 conjI [OF H2 H3]]]
  have f: "fst ?d = None" by (rule c [THEN conjunct1])
  have "items (storage (snd ?d)) KEY = Some (example_stringify (history (app (snd ?d))))"
    by (rule c [THEN conjunct2, THEN conjunct1])
  then have p: "items (storage (snd ?d)) KEY = Some ''1:;''"
    by (simp add: h example_items_stringify)
  have "items (storage (snd (deleteHistoryItem example_stringify ''2'' (snd ?d)))) KEY
      = Some (example_stringify (history (app (snd ?d))))"
    by (rule c [THEN conjunct2, THEN conjunct2, THEN conjunct1])
  then have p2: "items (storage (snd (deleteHistoryItem example_stringify ''2'' (snd ?d)))) KEY
      = Some ''1:;''"
    by (simp add: h example_items_stringify)
  have n: "\<forall>x \<in> set (history (app (stored_world 20))). item_id x \<noteq> ''3''"
    by (simp add: stored_world_fields example_item_def)
  have q: "history (app (snd (deleteHistoryItem example_stringify ''3'' (stored_world 20))))
     = history (app (stored_world 20))"
    by (rule t3 [THEN conjunct2, THEN conjunct2, THEN conjunct1, THEN mp, OF n])
  show ?thesis using H3 f h p p2 q by simp
qed

lemma example_new_stored:
  "example_stringify
     (newItem_of (1700000000000, 1700000000001) example_upload example_result
        # [example_item ''2'' 2, example_item ''1'' 1])
     = ''1700000000000:data:image/png;base64,QUJD;2:;1:;''
   \<and> example_stringify
     ((newItem_of (1700000000000, 1700000000001) example_upload example_result)
        \<lparr>item_previewUrl := []\<rparr> # [example_item ''2'' 2, example_item ''1'' 1])
     = ''1700000000000:;2:;1:;''"
  by (simp add: example_stringify_def newItem_of_def example_upload_def example_url_def
      toString_eval example_item_def)

lemma example_items_newest_first:
  "newest_first [example_item ''2'' 2, example_item ''1'' 1]"
  by (simp add: newest_first_def example_item_def)


text \<open>
  The theorem of C6 at a world with two records, for a storage that takes the full
  record (99 characters), one that takes only the record without preview (30) and one
  that takes neither (10).
\<close>

theorem history_newest_first_witness:
  "history (app (addToHistory example_stringify
          [example_item ''2'' 2, example_item ''1'' 1] (1700000000000, 1700000000001)
          example_upload example_result (stored_world 99)))
       = newItem_of (1700000000000, 1700000000001) example_upload example_result
           # [example_item ''2'' 2, example_item ''1'' 1]
   \<and> items (storage (addToHistory example_stringify
          [example_item ''2'' 2, example_item ''1'' 1] (1700000000000, 1700000000001)
          example_upload example_result (stored_world 99))) KEY
       = Some ''1700000000000:data:image/png;base64,QUJD;2:;1:;''
   \<and> history (app (addToHistory example_stringify
          [example_item ''2'' 2, example_item ''1'' 1] (1700000000000, 1700000000001)
          example_upload example_result (stored_world 30)))
       = (newItem_of (1700000000000, 1700000000001) example_upload example_result)
             \<lparr>item_previewUrl := []\<rparr> # [example_item ''2'' 2, example_item ''1'' 1]
   \<and> items (storage (addToHistory example_stringify
          [example_item ''2'' 2, example_item ''1'' 1] (1700000000000, 1700000000001)
          example_upload example_result (stored_world 30))) KEY
       = Some ''1700000000000:;2:;1:;''
   \<and> newest_first (history (app (addToHistory example_stringify
          [example_item ''2'' 2, example_item ''1'' 1] (1700000000000, 1700000000001)
          example_upload example_result (stored_world 30))))
   \<and> history (app (addToHistory example_stringify
          [example_item ''2'' 2, example_item ''1'' 1] (1700000000000, 1700000000001)
          example_upload example_result (stored_world 10)))
       = [example_item ''2'' 2, example_item ''1'' 1]
   \<and> items (storage (addToHistory example_stringify
          [example_item ''2'' 2, example_item ''1'' 1] (1700000000000, 1700000000001)
          example_upload example_result (stored_world 10))) KEY
       = Some ''2:;1:;''
   \<and> newest_first (history (app (snd (deleteHistoryItem example_stringify ''2''
          (stored_world 30)))))
   \<and> newest_first (history (app (loadHistory
          (\<lambda>s. Some [example_item ''2'' 2, example_item ''1'' 1]) (stored_world 30))))"
proof -
  let ?hist = "[example_item ''2'' 2, example_item ''1'' 1]"
  let ?now = "(1700000000000, 1700000000001) :: int \<times> int"
  let ?new = "newItem_of ?now example_upload example_result"
  let ?el = "?new\<lparr>item_previewUrl := []\<rparr>"
  let ?parse = "\<lambda>s :: string. Some [example_item ''2'' 2, example_item ''1'' 1]"
  note t99 = history_newest_first
    [where w = "stored_world 99" and stringify = example_stringify and now = ?now
       and u = example_upload and a = example_result and hist = ?hist]
  note t30 = history_newest_first
    [where w = "stored_world 30" and stringify = example_stringify and now = ?now
       and u = example_upload and a = example_result and hist = ?hist and i = "''2''"
       and parse = ?parse]
  note t0 = history_newest_first
    [where w = "stored_world 10" and stringify = example_stringify and now = ?now
       and u = example_upload and a = example_result and hist = ?hist]
  note c2 = conjunct2
  have nf: "newest_first ?hist" by (rule example_items_newest_first)
  have clock: "\<forall>x \<in> set ?hist. timestamp x \<le> snd ?now"
    by (simp add: example_item_def)
  have a99: "accepts (storage (stored_world 99)) KEY (example_stringify (?new # ?hist))"
    by (simp add: example_new_stored stored_world_accepts)
  have r30: "\<not> accepts (storage (stored_world 30)) KEY (example_stringify (?new # ?hist))"
    by (simp add: example_new_stored stored_world_accepts)
  have a30: "accepts (storage (stored_world 30)) KEY (example_stringify (?el # ?hist))"
    by (simp add: example_new_stored stored_world_accepts)
  have r0: "\<not> accepts (storage (stored_world 10)) KEY (example_stringify (?new # ?hist))"
    by (simp add: example_new_stored stored_world_accepts)
  have q0: "\<not> accepts (storage (stored_world 10)) KEY (example_stringify (?el # ?hist))"
    by (simp add: example_new_stored stored_world_accepts)
  note f99 = t99 [THEN conjunct1, THEN mp, OF a99]
  note f30 = t30 [THEN c2, THEN conjunct1, THEN mp, OF conjI [OF r30 a30]]
  note f0 = t0 [THEN c2, THEN c2, THEN conjunct1, THEN mp, OF conjI [OF r0 q0]]
  have o30: "newest_first (history (app (addToHistory example_stringify ?hist ?now
      example_upload example_result (stored_world 30))))"
    by (rule t30 [THEN c2, THEN c2, THEN c2, THEN conjunct1, THEN mp,
          OF conjI [OF disjI2 [OF a30] conjI [OF nf clock]]])
  have nfw: "newest_first (history (app (stored_world 30)))"
    by (simp add: stored_world_fields nf)
  have lp: "\<forall>s h. getItem KEY (storage (stored_world 30)) = Some s \<and> ?parse s = Some h
      \<longrightarrow> newest_first h"
    using nf by auto
  have rm: "newest_first (history (app (snd (deleteHistoryItem example_stringify ''2''
          (stored_world 30)))))"
    by (rule t30 [THEN c2, THEN c2, THEN c2, THEN c2, THEN c2, THEN c2, THEN conjunct1,
          THEN mp, OF nfw])
  have ld: "newest_first (history (app (loadHistory ?parse (stored_world 30))))"
    by (rule t30 [THEN c2, THEN c2, THEN c2, THEN c2, THEN c2, THEN c2, THEN c2, THEN c2,
          THEN conjunct1, THEN mp, OF conjI [OF nfw lp]])
  have s0: "history (app (stored_world 10)) = ?hist
      \<and> items (storage (stored_world 10)) KEY = Some ''2:;1:;''"
    by (simp add: stored_world_fields)
  show ?thesis
    using f99 f30 f0 o30 rm ld by (simp add: example_new_stored s0)
qed

text \<open>
  Claim C6 as stated fails: at a storage that takes nothing, the list after an append is
  empty and nothing is persisted, so the list does not return the new record first. And
  with a clock reading of 0 in front of records stamped 2 and 1, the list after the
  append is not newest first by timestamp.
\<close>

theorem append_not_listed_counterexample:
  "history (app (addToHistory example_stringify [] (1700000000000, 1700000000001)
      example_upload example_result (initial_world 0))) = []
   \<and> items (storage (addToHistory example_stringify [] (1700000000000, 1700000000001)
      example_upload example_result (initial_world 0))) KEY = None
   \<and> history (app (addToHistory example_stringify [example_item ''2'' 2, example_item ''1'' 1]
      (0, 0) example_upload example_result (stored_world 99)))
     = newItem_of (0, 0) example_upload example_result
         # [example_item ''2'' 2, example_item ''1'' 1]
   \<and> \<not> newest_first (history (app (addToHistory example_stringify
      [example_item ''2'' 2, example_item ''1'' 1]
      (0, 0) example_upload example_result (stored_world 99))))"
proof -
  have h: "\<not> accepts (storage (initial_world 0)) KEY
       (example_stringify
          [newItem_of (1700000000000, 1700000000001) example_upload example_result])"
    by (simp add: example_new_full initial_world_def example_storage_def)
  have g: "\<not> accepts (storage (initial_world 0)) KEY
       (example_stringify
          [(newItem_of (1700000000000, 1700000000001) example_upload example_result)
             \<lparr>item_previewUrl := []\<rparr>])"
    by (simp add: example_new_elided initial_world_def example_storage_def)
  have d: "history (app (addToHistory example_stringify [] (1700000000000, 1700000000001)
      example_upload example_result (initial_world 0))) = []
   \<and> items (storage (addToHistory example_stringify [] (1700000000000, 1700000000001)
      example_upload example_result (initial_world 0))) KEY = None"
    by (simp add: addToHistory_none
    [where stringify = example_stringify and hist = "[]"
       and now = "(1700000000000, 1700000000001)" and u = example_upload
       and a = example_result and w = "initial_world 0", OF h g])
       (simp add: initial_world_def initial_app_def example_storage_def)
  have s: "example_stringify (newItem_of (0, 0) example_upload example_result
         # [example_item ''2'' 2, example_item ''1'' 1])
       = ''0:data:image/png;base64,QUJD;2:;1:;''"
    by (simp add: example_stringify_def newItem_of_def example_upload_def example_url_def
      toString_eval example_item_def)
  have a: "accepts (storage (stored_world 99)) KEY
       (example_stringify (newItem_of (0, 0) example_upload example_result
         # [example_item ''2'' 2, example_item ''1'' 1]))"
    unfolding s by (simp add: stored_world_accepts)
  have k: "history (app (addToHistory example_stringify [example_item ''2'' 2, example_item ''1'' 1]
      (0, 0) example_upload example_result (stored_world 99)))
     = newItem_of (0, 0) example_upload example_result
         # [example_item ''2'' 2, example_item ''1'' 1]"
    by (simp add: addToHistory_first
      [where stringify = example_stringify
         and hist = "[example_item ''2'' 2, example_item ''1'' 1]" and now = "(0, 0)"
         and u = example_upload and a = example_result and w = "stored_world 99", OF a])
  have n: "\<not> newest_first (newItem_of (0, 0) example_upload example_result
         # [example_item ''2'' 2, example_item ''1'' 1])"
    by (simp add: newest_first_def newItem_of_def example_item_def)
  show ?thesis using d k n by simp
qed

section \<open>Properties of the encoder and of the session\<close>

text \<open>
  A split always has a first piece, so the head that \<open>encode\<close> takes of it is never the
  head of an empty list.
\<close>

lemma split_str_nonempty: "split_str c s \<noteq> []"
  by (induction s) (auto split: list.splits)








lemma processFile_within:
  "size_f f \<le> MAX_SIZE \<Longrightarrow>
     processFile f w =
       w\<lparr>app := (app w)\<lparr>status := ANALYZING, error := None, result := None\<rparr>,
         reads := reads w @ [f]\<rparr>"
  by (simp add: processFile_def)

lemma friendly_file_too_large:
  "getFriendlyErrorMessage FILE_TOO_LARGE = ''File too large. Please upload media under 20MB.''"
  by (simp add: getFriendlyErrorMessage_def FILE_TOO_LARGE_def msg_of_def)

lemma processFile_over:
  "MAX_SIZE < size_f f \<Longrightarrow>
     processFile f w =
       w\<lparr>app := (app w)\<lparr>error := Some ''File too large. Please upload media under 20MB.'',
                           status := ERROR\<rparr>\<rparr>"
  by (simp add: processFile_def friendly_file_too_large)

lemma reader_onload_encoded:
  "encode f r = Inr u \<Longrightarrow>
     reader_onload f r w =
       w\<lparr>app := (app w)\<lparr>currentFile := Some u\<rparr>, calls := calls w @ [(base64 u, mimeType u)]\<rparr>"
  by (simp add: reader_onload_def)




lemma encode_example: "encode example_file example_url = Inr example_upload"
  by (simp add: encode_def example_url_def example_upload_def at_def)

lemma encode_other:
  "encode other_file other_url =
     Inr \<lparr>file_f = other_file, previewUrl = other_url, base64 = Some ''WFla'',
          mimeType = ''image/jpeg''\<rparr>"
  by (simp add: encode_def other_url_def at_def)

lemma encode_changed:
  "encode example_file ''data:image/png;base64,WFla'' =
     Inr \<lparr>file_f = example_file, previewUrl = ''data:image/png;base64,WFla'',
          base64 = Some ''WFla'', mimeType = ''image/png''\<rparr>"
  by (simp add: encode_def at_def)

lemma example_sizes:
  "size_f example_file \<le> MAX_SIZE \<and> size_f other_file \<le> MAX_SIZE
   \<and> size_f boundary_file \<le> MAX_SIZE \<and> size_f boundary_file = 20 * 1024 * 1024
   \<and> size_f (file_f example_upload) \<le> MAX_SIZE"
  by (simp add: example_file_def other_file_def boundary_file_def MAX_SIZE_def
      example_upload_def)

lemma submitting_world_eq:
  "submitting_world =
     \<lparr>app = \<lparr>activeTab = analyze, status = ANALYZING, currentFile = Some example_upload,
             result = None, error = None, history = []\<rparr>,
      storage = example_storage 99, reads = [example_file],
      calls = [(Some ''QUJD'', ''image/png'')]\<rparr>"
  unfolding submitting_world_def reader_onload_encoded [OF encode_example]
    processFile_within [OF example_sizes [THEN conjunct1]]
  by (simp add: initial_world_def initial_app_def example_upload_def)

lemma friendly_failed_to_fetch:
  "getFriendlyErrorMessage \<lparr>message = Some ''Failed to fetch''\<rparr> = MSG_NETWORK"
  by (simp add: getFriendlyErrorMessage_def msg_of_def)

lemma failed_world_eq:
  "failed_world =
     \<lparr>app = \<lparr>activeTab = analyze, status = ERROR, currentFile = Some example_upload,
             result = None, error = Some MSG_NETWORK, history = []\<rparr>,
      storage = example_storage 99, reads = [example_file],
      calls = [(Some ''QUJD'', ''image/png'')]\<rparr>"
  by (simp add: failed_world_def analyze_rejected_def submitting_world_eq
      friendly_failed_to_fetch)



text \<open>
  Claim C3, amended. For every file whose size is over 20 MiB (20971520 bytes),
  \<^verbatim>\<open>processFile\<close> ends in the error state with the oversize-file message, which is of
  the FileTooLarge category, in its synchronous part: no read is started, no call to the
  inference service is made, and the history, the storage and the captured media are as
  before.
\<close>

theorem oversize_rejected:
  assumes "MAX_SIZE < size_f f"
  shows "processFile f w =
       w\<lparr>app := (app w)\<lparr>error := Some ''File too large. Please upload media under 20MB.'',
                           status := ERROR\<rparr>\<rparr>
     \<and> status (app (processFile f w)) = ERROR
     \<and> error (app (processFile f w)) = Some ''File too large. Please upload media under 20MB.''
     \<and> classify_spec ''File too large. Please upload media under 20MB.'' = FileTooLarge
     \<and> reads (processFile f w) = reads w
     \<and> calls (processFile f w) = calls w
     \<and> history (app (processFile f w)) = history (app w)
     \<and> storage (processFile f w) = storage w
     \<and> currentFile (app (processFile f w)) = currentFile (app w)
     \<and> MAX_SIZE = 20971520"
proof -
  have c: "classify_spec ''File too large. Please upload media under 20MB.'' = FileTooLarge"
    by (simp add: classify_spec_def category_order_def matches_def)
  show ?thesis
    unfolding processFile_over [OF assms] using c by (simp add: MAX_SIZE_def)
qed

text \<open>
  The theorem of C3 at a file of 25 MiB submitted in the initial state.
\<close>

theorem oversize_rejected_witness:
  "MAX_SIZE < size_f \<lparr>name = ''film.mov'', size_f = 26214400, type_f = ''video/quicktime''\<rparr>
   \<and> status (app (processFile
         \<lparr>name = ''film.mov'', size_f = 26214400, type_f = ''video/quicktime''\<rparr>
         (initial_world 99))) = ERROR
   \<and> error (app (processFile
         \<lparr>name = ''film.mov'', size_f = 26214400, type_f = ''video/quicktime''\<rparr>
         (initial_world 99))) = Some ''File too large. Please upload media under 20MB.''
   \<and> reads (processFile
         \<lparr>name = ''film.mov'', size_f = 26214400, type_f = ''video/quicktime''\<rparr>
         (initial_world 99)) = []
   \<and> calls (processFile
         \<lparr>name = ''film.mov'', size_f = 26214400, type_f = ''video/quicktime''\<rparr>
         (initial_world 99)) = []
   \<and> history (app (processFile
         \<lparr>name = ''film.mov'', size_f = 26214400, type_f = ''video/quicktime''\<rparr>
         (initial_world 99))) = []"
proof -
  have h: "MAX_SIZE
      < size_f \<lparr>name = ''film.mov'', size_f = 26214400, type_f = ''video/quicktime''\<rparr>"
    by (simp add: MAX_SIZE_def)
  have i: "reads (initial_world 99) = [] \<and> calls (initial_world 99) = []
      \<and> history (app (initial_world 99)) = []"
    by (simp add: initial_world_def initial_app_def)
  note t = oversize_rejected [OF h, of "initial_world 99"]
  show ?thesis
    using h i t [THEN conjunct2] by simp
qed

text \<open>
  Claim C3 as stated fails at the ceiling itself: a file of exactly 20 MiB passes the
  check, the session is Submitting without error, and a read of the file is started.
\<close>

theorem boundary_file_read_counterexample:
  "size_f boundary_file = 20 * 1024 * 1024
   \<and> reads (processFile boundary_file (initial_world 99)) = [boundary_file]
   \<and> status (app (processFile boundary_file (initial_world 99))) = ANALYZING
   \<and> error (app (processFile boundary_file (initial_world 99))) = None"
  unfolding processFile_within [OF example_sizes [THEN conjunct2, THEN conjunct2, THEN conjunct1]]
  by (simp add: example_sizes initial_world_def)

lemma encode_fixed: "encode f0 r0 = Inr cf \<Longrightarrow> encode (file_f cf) r0 = Inr cf"
  by (auto simp: encode_def Let_def split: option.splits)

text \<open>
  Claim C1, amended. Retry calls \<^verbatim>\<open>processFile\<close> on the raw file of the captured media
  (which is within the size limit): the session is Submitting again, the captured media
  is kept, a new read of the file is started, and Retry itself sends nothing. When the
  new read delivers, what is sent is the payload and content type encoded from the
  string it delivers; they are those captured at the first submission when it delivers
  the string that was read then. When the new read fails, nothing is sent and the
  session is Failed with the read-failure message.
\<close>

theorem retry_reprocesses:
  assumes cur: "currentFile (app w) = Some cf"
    and sz: "size_f (file_f cf) \<le> MAX_SIZE"
  shows "retry w = processFile (file_f cf) w
     \<and> reads (retry w) = reads w @ [file_f cf]
     \<and> calls (retry w) = calls w
     \<and> status (app (retry w)) = ANALYZING
     \<and> currentFile (app (retry w)) = Some cf
     \<and> (encode (file_f cf) r = Inr u \<longrightarrow>
          calls (reader_onload (file_f cf) r (retry w)) = calls w @ [(base64 u, mimeType u)]
        \<and> currentFile (app (reader_onload (file_f cf) r (retry w))) = Some u)
     \<and> (encode f0 r0 = Inr cf \<longrightarrow>
          calls (reader_onload (file_f cf) r0 (retry w))
            = calls w @ [(base64 cf, mimeType cf)])
     \<and> calls (reader_onerror (retry w)) = calls w
     \<and> status (app (reader_onerror (retry w))) = ERROR
     \<and> error (app (reader_onerror (retry w))) = Some MSG_READ_FAILED"
proof -
  have r: "retry w = processFile (file_f cf) w"
    using cur by (simp add: retry_def)
  have A: "encode (file_f cf) r = Inr u \<longrightarrow>
          calls (reader_onload (file_f cf) r (retry w)) = calls w @ [(base64 u, mimeType u)]
        \<and> currentFile (app (reader_onload (file_f cf) r (retry w))) = Some u"
    by (simp add: r processFile_within [OF sz] reader_onload_encoded)
  have B: "encode f0 r0 = Inr cf \<longrightarrow>
          calls (reader_onload (file_f cf) r0 (retry w))
            = calls w @ [(base64 cf, mimeType cf)]"
  proof
    assume "encode f0 r0 = Inr cf"
    then have "encode (file_f cf) r0 = Inr cf" by (rule encode_fixed)
    then show "calls (reader_onload (file_f cf) r0 (retry w))
            = calls w @ [(base64 cf, mimeType cf)]"
      by (simp add: r processFile_within [OF sz] reader_onload_encoded)
  qed
  have C: "reads (retry w) = reads w @ [file_f cf]
     \<and> calls (retry w) = calls w
     \<and> status (app (retry w)) = ANALYZING
     \<and> currentFile (app (retry w)) = Some cf"
    using cur by (simp add: r processFile_within [OF sz])
  have D: "calls (reader_onerror (retry w)) = calls w
     \<and> status (app (reader_onerror (retry w))) = ERROR
     \<and> error (app (reader_onerror (retry w))) = Some MSG_READ_FAILED"
    by (simp add: r processFile_within [OF sz] reader_onerror_def)
  from r A B C D show ?thesis by blast
qed

text \<open>
  The theorem of C1 at the session that failed for lack of connectivity: a re-read that
  delivers other content, and one that delivers the same.
\<close>

theorem retry_reprocesses_witness:
  "currentFile (app failed_world) = Some example_upload
   \<and> size_f (file_f example_upload) \<le> MAX_SIZE
   \<and> reads (retry failed_world) = [example_file, example_file]
   \<and> calls (retry failed_world) = [(Some ''QUJD'', ''image/png'')]
   \<and> calls (reader_onload example_file ''data:image/png;base64,WFla'' (retry failed_world))
       = [(Some ''QUJD'', ''image/png''), (Some ''WFla'', ''image/png'')]
   \<and> calls (reader_onload example_file example_url (retry failed_world))
       = [(Some ''QUJD'', ''image/png''), (Some ''QUJD'', ''image/png'')]"
proof -
  have cur: "currentFile (app failed_world) = Some example_upload"
    by (simp add: failed_world_eq)
  have sz: "size_f (file_f example_upload) \<le> MAX_SIZE"
    by (simp add: example_sizes)
  have ff: "file_f example_upload = example_file" by (simp add: example_upload_def)
  have e1: "encode (file_f example_upload) ''data:image/png;base64,WFla'' =
     Inr \<lparr>file_f = example_file, previewUrl = ''data:image/png;base64,WFla'',
          base64 = Some ''WFla'', mimeType = ''image/png''\<rparr>"
    unfolding ff by (rule encode_changed)
  note t = retry_reprocesses [OF cur sz,
      where r = "''data:image/png;base64,WFla''"
        and u = "\<lparr>file_f = example_file, previewUrl = ''data:image/png;base64,WFla'',
          base64 = Some ''WFla'', mimeType = ''image/png''\<rparr>"
        and ?f0.0 = example_file and ?r0.0 = example_url]
  note rest = conjunct2 [THEN conjunct2, THEN conjunct2, THEN conjunct2, THEN conjunct2]
  have a: "reads (retry failed_world) = reads failed_world @ [file_f example_upload]"
    by (rule t [THEN conjunct2, THEN conjunct1])
  have b: "calls (retry failed_world) = calls failed_world"
    by (rule t [THEN conjunct2, THEN conjunct2, THEN conjunct1])
  have c: "calls (reader_onload (file_f example_upload) ''data:image/png;base64,WFla''
        (retry failed_world))
      = calls failed_world @ [(Some ''WFla'', ''image/png'')]"
    using t [THEN rest, THEN conjunct1, THEN mp, OF e1, THEN conjunct1] by simp
  have d: "calls (reader_onload (file_f example_upload) example_url (retry failed_world))
      = calls failed_world @ [(base64 example_upload, mimeType example_upload)]"
    by (rule t [THEN rest, THEN conjunct2, THEN conjunct1, THEN mp, OF encode_example])
  have w: "reads failed_world = [example_file]
      \<and> calls failed_world = [(Some ''QUJD'', ''image/png'')]"
    by (simp add: failed_world_eq)
  have x: "base64 example_upload = Some ''QUJD'' \<and> mimeType example_upload = ''image/png''"
    by (simp add: example_upload_def)
  show ?thesis
    using cur sz a b c d by (simp add: ff w x)
qed

text \<open>
  Claim C1 as stated fails: in the session that failed for lack of connectivity, Retry
  starts a second read of the file and sends nothing itself; if that read fails, nothing
  is ever re-submitted; if it delivers other content, the payload sent is the new one,
  not the captured one.
\<close>

theorem retry_rereads_counterexample:
  "status (app failed_world) = ERROR
   \<and> currentFile (app failed_world) = Some example_upload
   \<and> base64 example_upload = Some ''QUJD''
   \<and> reads failed_world = [example_file]
   \<and> calls failed_world = [(Some ''QUJD'', ''image/png'')]
   \<and> reads (retry failed_world) = [example_file, example_file]
   \<and> calls (retry failed_world) = [(Some ''QUJD'', ''image/png'')]
   \<and> calls (reader_onerror (retry failed_world)) = [(Some ''QUJD'', ''image/png'')]
   \<and> status (app (reader_onerror (retry failed_world))) = ERROR
   \<and> calls (reader_onload example_file ''data:image/png;base64,WFla'' (retry failed_world))
       = [(Some ''QUJD'', ''image/png''), (Some ''WFla'', ''image/png'')]"
proof -
  have r: "retry failed_world = processFile example_file failed_world"
    by (simp add: retry_def failed_world_eq example_upload_def)
  show ?thesis
    unfolding r processFile_within [OF example_sizes [THEN conjunct1]]
      reader_onload_encoded [OF encode_changed]
    by (simp add: failed_world_eq reader_onerror_def example_upload_def)
qed

text \<open>
  Claim C2, amended. While the session is Submitting (no result, no error), a second
  call of \<^verbatim>\<open>processFile\<close> with a file within the size limit leaves the component's
  state (session state, captured media, history), the storage and the calls made so far
  as they are, but it is no no-op: it starts one more read, and when that read delivers
  an encodable string, the captured media is replaced by the new upload and one more
  call to the inference service is made.
\<close>

theorem second_submission:
  assumes st: "status (app w) = ANALYZING"
    and er: "error (app w) = None"
    and re: "result (app w) = None"
    and sz: "size_f f \<le> MAX_SIZE"
  shows "app (processFile f w) = app w
     \<and> storage (processFile f w) = storage w
     \<and> calls (processFile f w) = calls w
     \<and> reads (processFile f w) = reads w @ [f]
     \<and> (encode f r = Inr u \<longrightarrow>
          currentFile (app (reader_onload f r (processFile f w))) = Some u
        \<and> calls (reader_onload f r (processFile f w)) = calls w @ [(base64 u, mimeType u)]
        \<and> status (app (reader_onload f r (processFile f w))) = ANALYZING)"
proof -
  have a: "(app w)\<lparr>status := ANALYZING, error := None, result := None\<rparr> = app w"
    using st er re by (cases "app w") simp
  have A: "app (processFile f w) = app w
     \<and> storage (processFile f w) = storage w
     \<and> calls (processFile f w) = calls w
     \<and> reads (processFile f w) = reads w @ [f]"
    by (simp add: processFile_within [OF sz] a)
  have B: "encode f r = Inr u \<longrightarrow>
          currentFile (app (reader_onload f r (processFile f w))) = Some u
        \<and> calls (reader_onload f r (processFile f w)) = calls w @ [(base64 u, mimeType u)]
        \<and> status (app (reader_onload f r (processFile f w))) = ANALYZING"
    by (simp add: processFile_within [OF sz] reader_onload_encoded)
  from A B show ?thesis by blast
qed

text \<open>
  The theorem of C2 at the session whose first submission is in flight, for a second
  file.
\<close>

theorem second_submission_witness:
  "status (app submitting_world) = ANALYZING
   \<and> error (app submitting_world) = None
   \<and> result (app submitting_world) = None
   \<and> size_f other_file \<le> MAX_SIZE
   \<and> app (processFile other_file submitting_world) = app submitting_world
   \<and> reads (processFile other_file submitting_world) = [example_file, other_file]
   \<and> calls (reader_onload other_file other_url (processFile other_file submitting_world))
       = [(Some ''QUJD'', ''image/png''), (Some ''WFla'', ''image/jpeg'')]"
proof -
  have st: "status (app submitting_world) = ANALYZING"
    and er: "error (app submitting_world) = None"
    and re: "result (app submitting_world) = None"
    by (simp_all add: submitting_world_eq)
  have sz: "size_f other_file \<le> MAX_SIZE" by (simp add: example_sizes)
  note t = second_submission [OF st er re sz, where r = other_url
      and u = "\<lparr>file_f = other_file, previewUrl = other_url, base64 = Some ''WFla'',
          mimeType = ''image/jpeg''\<rparr>"]
  have a: "app (processFile other_file submitting_world) = app submitting_world"
    by (rule t [THEN conjunct1])
  have b: "reads (processFile other_file submitting_world) = reads submitting_world @ [other_file]"
    by (rule t [THEN conjunct2, THEN conjunct2, THEN conjunct2, THEN conjunct1])
  have c: "calls (reader_onload other_file other_url (processFile other_file submitting_world))
      = calls submitting_world @ [(Some ''WFla'', ''image/jpeg'')]"
    using t [THEN conjunct2, THEN conjunct2, THEN conjunct2, THEN conjunct2, THEN mp,
        OF encode_other, THEN conjunct2, THEN conjunct1] by simp
  have w: "reads submitting_world = [example_file]
      \<and> calls submitting_world = [(Some ''QUJD'', ''image/png'')]"
    by (simp add: submitting_world_eq)
  show ?thesis
    using st er re sz a b c by (simp add: w)
qed

text \<open>
  Claim C2 as stated fails: in the session whose first submission is in flight, a second
  call starts a second read, and when it delivers, the captured media is the second file
  and two calls to the inference service have been made.
\<close>

theorem second_submission_counterexample:
  "status (app submitting_world) = ANALYZING
   \<and> currentFile (app submitting_world) = Some example_upload
   \<and> reads submitting_world = [example_file]
   \<and> calls submitting_world = [(Some ''QUJD'', ''image/png'')]
   \<and> reads (processFile other_file submitting_world) = [example_file, other_file]
   \<and> currentFile (app (reader_onload other_file other_url
        (processFile other_file submitting_world)))
       = Some \<lparr>file_f = other_file, previewUrl = other_url, base64 = Some ''WFla'',
               mimeType = ''image/jpeg''\<rparr>
   \<and> calls (reader_onload other_file other_url (processFile other_file submitting_world))
       = [(Some ''QUJD'', ''image/png''), (Some ''WFla'', ''image/jpeg'')]"
  unfolding processFile_within [OF example_sizes [THEN conjunct2, THEN conjunct1]]
    reader_onload_encoded [OF encode_other]
  by (simp add: submitting_world_eq)

end
